theory Spec2Isabelle
  imports Main
begin

section \<open>KarpeSlop detection engine (src/ai-slop-detector.ts)\<close>

text \<open>
  The engine is line and regular-expression based.  Strings are modelled as
  \<^typ>\<open>string\<close> (one \<^typ>\<open>char\<close> per code unit; every text used below is
  ASCII, where the units of the source's strings and the characters of the
  model coincide).  Indices are 0-based naturals, as in the source.
\<close>

subsection \<open>String primitives of the host language\<close>

text \<open>\<^verbatim>\<open>s.startsWith(t)\<close>\<close>

fun startsWith :: "string \<Rightarrow> string \<Rightarrow> bool" where
  "startsWith s [] = True"
| "startsWith [] (y # ys) = False"
| "startsWith (x # xs) (y # ys) = (x = y \<and> startsWith xs ys)"

text \<open>\<^verbatim>\<open>s.includes(t)\<close>: \<open>t\<close> occurs in \<open>s\<close> as a contiguous substring.\<close>

fun includesStr :: "string \<Rightarrow> string \<Rightarrow> bool" where
  "includesStr [] t = (t = [])"
| "includesStr (x # xs) t = (startsWith (x # xs) t \<or> includesStr xs t)"

text \<open>\<^verbatim>\<open>s.endsWith(t)\<close>\<close>

definition endsWith :: "string \<Rightarrow> string \<Rightarrow> bool" where
  "endsWith s t = startsWith (rev s) (rev t)"

text \<open>
  White space as the host's \<^verbatim>\<open>\s\<close> and \<^verbatim>\<open>trim\<close> see it, restricted to
  the 8-bit range: TAB, LF, VT, FF, CR, SPACE and NBSP.
\<close>

definition isSpace :: "char \<Rightarrow> bool" where
  "isSpace c = (c = CHR 0x09 \<or> c = CHR 0x0A \<or> c = CHR 0x0B \<or> c = CHR 0x0C
     \<or> c = CHR 0x0D \<or> c = CHR '' '' \<or> c = CHR 0xA0)"

definition trim :: "string \<Rightarrow> string" where
  "trim s = rev (dropWhile isSpace (rev (dropWhile isSpace s)))"

text \<open>\<^verbatim>\<open>content.split('\n')\<close>: always at least one line.\<close>

fun split_lines :: "string \<Rightarrow> string list" where
  "split_lines [] = [[]]"
| "split_lines (c # cs) =
     (if c = CHR 0x0A then [] # split_lines cs
      else (case split_lines cs of
              [] \<Rightarrow> [[c]]
            | l # ls \<Rightarrow> (c # l) # ls))"

text \<open>Decimal rendering of a number inside a template literal.\<close>

definition digit_char :: "nat \<Rightarrow> char" where
  "digit_char d = char_of (48 + d)"

fun show_nat :: "nat \<Rightarrow> string" where
  "show_nat n = (if n < 10 then [digit_char n]
                 else show_nat (n div 10) @ [digit_char (n mod 10)])"

declare show_nat.simps [simp del]

subsection \<open>Regular expressions\<close>

text \<open>
  The fragment of the host's regular expressions that the rule table uses:
  literals, character classes, the dot, sequence, ordered alternative, greedy
  and lazy repetition, one numbered capture with its back-reference, and the
  word-boundary assertion.  Bounded repetition and \<^verbatim>\<open>+\<close>, \<^verbatim>\<open>?\<close> are
  derived forms.  A group whose capture is never read back is written as plain
  grouping: the engine only reads \<^verbatim>\<open>match[0]\<close> and \<^verbatim>\<open>match.index\<close>.
\<close>

datatype citem = One char | Range char char | Digit | Word | Space | NonSpace

datatype rx =
    Eps
  | Str string
  | Cls bool "citem list"
  | Dot
  | WordB
  | Seq rx rx
  | Alt rx rx
  | Star bool rx
  | Grp nat rx
  | Bref nat

definition isDigit :: "char \<Rightarrow> bool" where
  "isDigit c = (48 \<le> (of_char c :: nat) \<and> (of_char c :: nat) \<le> 57)"

definition isUpper :: "char \<Rightarrow> bool" where
  "isUpper c = (65 \<le> (of_char c :: nat) \<and> (of_char c :: nat) \<le> 90)"

definition isLower :: "char \<Rightarrow> bool" where
  "isLower c = (97 \<le> (of_char c :: nat) \<and> (of_char c :: nat) \<le> 122)"

definition isWord :: "char \<Rightarrow> bool" where
  "isWord c = (isLower c \<or> isUpper c \<or> isDigit c \<or> c = CHR ''_'')"

text \<open>Case folding of the \<^verbatim>\<open>i\<close> flag and of \<^verbatim>\<open>toLowerCase\<close> (ASCII letters).\<close>

definition toUpper :: "char \<Rightarrow> char" where
  "toUpper c = (if isLower c then char_of ((of_char c :: nat) - 32) else c)"

definition toLower :: "char \<Rightarrow> char" where
  "toLower c = (if isUpper c then char_of ((of_char c :: nat) + 32) else c)"

definition chr_eq :: "bool \<Rightarrow> char \<Rightarrow> char \<Rightarrow> bool" where
  "chr_eq ci a b = (if ci then toUpper a = toUpper b else a = b)"

fun item_has :: "citem \<Rightarrow> char \<Rightarrow> bool" where
  "item_has (One a) c = (a = c)"
| "item_has (Range lo hi) c =
     ((of_char lo :: nat) \<le> of_char c \<and> (of_char c :: nat) \<le> of_char hi)"
| "item_has Digit c = isDigit c"
| "item_has Word c = isWord c"
| "item_has Space c = isSpace c"
| "item_has NonSpace c = (\<not> isSpace c)"

text \<open>
  Under the \<^verbatim>\<open>i\<close> flag a class contains a character when it contains a
  character with the same canonical form; a negated class inverts afterwards.
\<close>

definition cls_has :: "bool \<Rightarrow> bool \<Rightarrow> citem list \<Rightarrow> char \<Rightarrow> bool" where
  "cls_has ci neg its c =
     (let hit = (\<exists>it \<in> set its. item_has it c
                   \<or> (ci \<and> (item_has it (toUpper c) \<or> item_has it (toLower c))))
      in if neg then \<not> hit else hit)"

definition isLineTerminator :: "char \<Rightarrow> bool" where
  "isLineTerminator c = (c = CHR 0x0A \<or> c = CHR 0x0D)"

text \<open>
  A matcher state: the text already consumed (reversed, so its head is the
  previous character), the text still ahead, and the captures.
\<close>

type_synonym mstate = "string \<times> string \<times> (nat \<times> string) list"

fun ahead :: "mstate \<Rightarrow> string" where
  "ahead (b, s, cs) = s"

fun startsWithCI :: "bool \<Rightarrow> string \<Rightarrow> string \<Rightarrow> bool" where
  "startsWithCI ci s [] = True"
| "startsWithCI ci [] (y # ys) = False"
| "startsWithCI ci (x # xs) (y # ys) = (chr_eq ci y x \<and> startsWithCI ci xs ys)"

definition atWordBoundary :: "string \<Rightarrow> string \<Rightarrow> bool" where
  "atWordBoundary b s =
     ((case b of [] \<Rightarrow> False | x # _ \<Rightarrow> isWord x)
      \<noteq> (case s of [] \<Rightarrow> False | y # _ \<Rightarrow> isWord y))"

text \<open>
  \<open>ms ci r st\<close> lists the states in which a match of \<open>r\<close> begun in \<open>st\<close> can
  end, in the order in which the backtracking matcher of the host tries them
  (the first element is the match it reports).  An iteration of a repetition
  that consumes nothing is discarded, as the host does.
\<close>

function ms :: "bool \<Rightarrow> rx \<Rightarrow> mstate \<Rightarrow> mstate list" where
  "ms ci Eps st = [st]"
| "ms ci (Str w) (b, s, cs) =
     (if startsWithCI ci s w
      then [(rev (take (length w) s) @ b, drop (length w) s, cs)] else [])"
| "ms ci (Cls neg its) (b, s, cs) =
     (case s of [] \<Rightarrow> []
      | x # xs \<Rightarrow> if cls_has ci neg its x then [(x # b, xs, cs)] else [])"
| "ms ci Dot (b, s, cs) =
     (case s of [] \<Rightarrow> []
      | x # xs \<Rightarrow> if isLineTerminator x then [] else [(x # b, xs, cs)])"
| "ms ci WordB (b, s, cs) = (if atWordBoundary b s then [(b, s, cs)] else [])"
| "ms ci (Seq r1 r2) st = concat (map (ms ci r2) (ms ci r1 st))"
| "ms ci (Alt r1 r2) st = ms ci r1 st @ ms ci r2 st"
| "ms ci (Star greedy r) st =
     (let more = concat (map (\<lambda>st'. if length (ahead st') < length (ahead st)
                                     then ms ci (Star greedy r) st' else [])
                             (ms ci r st))
      in if greedy then more @ [st] else st # more)"
| "ms ci (Grp n r) (b, s, cs) =
     map (\<lambda>(b', s', cs'). (b', s', (n, take (length s - length s') s) # cs'))
         (ms ci r (b, s, cs))"
| "ms ci (Bref n) (b, s, cs) =
     (case map_of cs n of
        None \<Rightarrow> [(b, s, cs)]
      | Some w \<Rightarrow> if startsWithCI ci s w
                  then [(rev (take (length w) s) @ b, drop (length w) s, cs)]
                  else [])"
  by pat_completeness auto
termination
  by (relation "measures [\<lambda>(ci, r, st). size r, \<lambda>(ci, r, st). length (ahead st)]") auto

declare ms.simps [simp del]

text \<open>
  \<^verbatim>\<open>regex.exec(line)\<close> from a given \<^verbatim>\<open>lastIndex\<close>: the leftmost position at
  which the expression matches, with the match the backtracking order prefers.
  The result is \<^verbatim>\<open>match.index\<close>, \<^verbatim>\<open>match[0]\<close> and the text before (reversed)
  and after the match.
\<close>

fun exec_at :: "bool \<Rightarrow> rx \<Rightarrow> string \<Rightarrow> string
    \<Rightarrow> (nat \<times> string \<times> string \<times> string) option" where
  "exec_at ci r b [] =
     (case ms ci r (b, [], []) of
        [] \<Rightarrow> None
      | (b', s', cs') # _ \<Rightarrow> Some (length b, [], b', s'))"
| "exec_at ci r b (x # xs) =
     (case ms ci r (b, x # xs, []) of
        [] \<Rightarrow> exec_at ci r (x # b) xs
      | (b', s', cs') # _ \<Rightarrow>
          Some (length b, take (length (x # xs) - length s') (x # xs), b', s'))"

text \<open>
  The loop \<^verbatim>\<open>while ((match = regex.exec(line)) !== null)\<close> of a global
  expression.  \<^verbatim>\<open>exec\<close> leaves \<^verbatim>\<open>lastIndex\<close> at the end of the match, so after
  an empty match the next call finds the same match again and the loop never
  ends: that outcome is \<open>None\<close>.  Otherwise the result lists
  \<^verbatim>\<open>(match.index, match[0])\<close> from left to right.
\<close>

function execAll :: "bool \<Rightarrow> rx \<Rightarrow> string \<Rightarrow> string \<Rightarrow> (nat \<times> string) list option" where
  "execAll ci r b s =
     (case exec_at ci r b s of
        None \<Rightarrow> Some []
      | Some (idx, txt, b', s') \<Rightarrow>
          if txt \<noteq> [] \<and> length s' < length s
          then map_option ((#) (idx, txt)) (execAll ci r b' s')
          else None)"
  by pat_completeness auto
termination
  by (relation "measure (\<lambda>(ci, r, b, s). length s)") auto

declare execAll.simps [simp del]

text \<open>
  \<^verbatim>\<open>line.match(re)\<close> with a global expression: the matched texts from left to
  right (the host's \<^verbatim>\<open>null\<close> is the empty list); after an empty match the
  search resumes one character further.
\<close>

function matchAllG :: "bool \<Rightarrow> rx \<Rightarrow> string \<Rightarrow> string \<Rightarrow> string list" where
  "matchAllG ci r b s =
     (case exec_at ci r b s of
        None \<Rightarrow> []
      | Some (idx, txt, b', s') \<Rightarrow>
          if txt = [] then
            (case s' of
               [] \<Rightarrow> [txt]
             | x # xs \<Rightarrow> if length xs < length s
                         then txt # matchAllG ci r (x # b') xs else [txt])
          else if length s' < length s then txt # matchAllG ci r b' s'
          else [txt])"
  by pat_completeness auto
termination
  by (relation "measure (\<lambda>(ci, r, b, s). length s)") auto

declare matchAllG.simps [simp del]

text \<open>\<^verbatim>\<open>line.search(/\S/)\<close>: the index of the first character that is not white
  space; the host's \<open>-1\<close> is \<open>None\<close>.\<close>

definition search_nonspace :: "string \<Rightarrow> nat option" where
  "search_nonspace s =
     (if \<forall>c \<in> set s. isSpace c then None
      else Some (length (takeWhile isSpace s)))"

text \<open>Derived forms of the expression syntax.\<close>

fun seqs :: "rx list \<Rightarrow> rx" where
  "seqs [] = Eps"
| "seqs [r] = r"
| "seqs (r # rs) = Seq r (seqs rs)"

fun alts :: "rx list \<Rightarrow> rx" where
  "alts [] = Cls False []"
| "alts [r] = r"
| "alts (r # rs) = Alt r (alts rs)"

text \<open>\<^verbatim>\<open>(?:a|b|c)\<close> over literal words.\<close>

definition words :: "string list \<Rightarrow> rx" where
  "words ws = alts (map Str ws)"

text \<open>\<^verbatim>\<open>r*\<close>, \<^verbatim>\<open>r+\<close>, \<^verbatim>\<open>r?\<close> (all greedy) and \<^verbatim>\<open>r*?\<close>.\<close>

definition star :: "rx \<Rightarrow> rx" where
  "star r = Star True r"

definition lazy_star :: "rx \<Rightarrow> rx" where
  "lazy_star r = Star False r"

definition plus :: "rx \<Rightarrow> rx" where
  "plus r = Seq r (Star True r)"

definition opt :: "rx \<Rightarrow> rx" where
  "opt r = Alt r Eps"

text \<open>\<^verbatim>\<open>r{n}\<close> and \<^verbatim>\<open>r{0,n}\<close>.\<close>

fun times :: "nat \<Rightarrow> rx \<Rightarrow> rx" where
  "times 0 r = Eps"
| "times (Suc n) r = Seq r (times n r)"

fun upto :: "nat \<Rightarrow> rx \<Rightarrow> rx" where
  "upto 0 r = Eps"
| "upto (Suc n) r = Alt (Seq r (upto n r)) Eps"

text \<open>\<^verbatim>\<open>\s\<close>, \<^verbatim>\<open>\w\<close>, \<^verbatim>\<open>\d\<close>, \<^verbatim>\<open>[^...]\<close> and \<^verbatim>\<open>['"]\<close>.\<close>

definition sp :: rx where
  "sp = Cls False [Space]"

definition wd :: rx where
  "wd = Cls False [Word]"

definition dg :: rx where
  "dg = Cls False [Digit]"

definition none_of :: "string \<Rightarrow> rx" where
  "none_of cs = Cls True (map One cs)"

definition one_of :: "string \<Rightarrow> rx" where
  "one_of cs = Cls False (map One cs)"

definition quote :: rx where
  "quote = one_of [CHR 0x27, CHR 0x22]"

definition not_quote :: rx where
  "not_quote = none_of [CHR 0x27, CHR 0x22]"

definition any_quote :: rx where
  "any_quote = one_of [CHR 0x22, CHR 0x27, CHR 0x60]"

subsection \<open>Data model\<close>

datatype severity = Critical | High | Medium | Low

text \<open>The text of a severity as it appears in a template literal.\<close>

fun severity_str :: "severity \<Rightarrow> string" where
  "severity_str Critical = ''critical''"
| "severity_str High = ''high''"
| "severity_str Medium = ''medium''"
| "severity_str Low = ''low''"

text \<open>\<^verbatim>\<open>interface AISlopIssue\<close>\<close>

record aiSlopIssue =
  i_type :: string
  i_file :: string
  i_line :: nat
  i_column :: nat
  i_code :: string
  i_message :: string
  i_severity :: severity

text \<open>\<^verbatim>\<open>interface ConsolidatedIssue\<close>\<close>

record consolidatedIssue =
  c_type :: string
  c_file :: string
  c_code :: string
  c_message :: string
  c_severity :: severity
  c_location :: "string list"

text \<open>
  \<^verbatim>\<open>interface DetectionPattern\<close>.  The compiled expression is \<open>p_pattern\<close> with
  its \<^verbatim>\<open>i\<close> flag in \<open>p_ci\<close> (every expression of the engine is global); an
  absent \<^verbatim>\<open>skipTests\<close> or \<^verbatim>\<open>skipMocks\<close> is \<open>False\<close>.  The fields
  \<^verbatim>\<open>fix\<close> and \<^verbatim>\<open>learnMore\<close> are read by the console report only and are
  left out.
\<close>

record detectionPattern =
  p_id :: string
  p_pattern :: rx
  p_ci :: bool
  p_message :: string
  p_severity :: severity
  p_description :: string
  p_skipTests :: bool
  p_skipMocks :: bool

subsection \<open>The rule table\<close>

text \<open>The dash of the messages, as the bytes the source file holds.\<close>

definition mdash :: string where
  "mdash = [CHR 0xC3, CHR 0xA2, CHR 0xE2, CHR 0x82, CHR 0xAC, CHR 0xE2, CHR 0x80, CHR 0x9D]"

text \<open>\<^verbatim>\<open>/const\s+(\w+)\s*=\s*\1\s*;?\s*\/\/.?(?:set|assign|store)\s+\1\b/gi\<close>\<close>

definition pat_redundant_self_explanatory_comment :: detectionPattern where
  "pat_redundant_self_explanatory_comment = \<lparr>
     p_id = ''redundant_self_explanatory_comment'',
     p_pattern =
       seqs [Str ''const'', plus sp, Grp 1 (plus wd), star sp, Str ''='', star sp,
         Bref 1, star sp, opt (Str '';''), star sp, Str ''//'', opt Dot,
         words [''set'', ''assign'', ''store''], plus sp, Bref 1, WordB],
     p_ci = True,
     p_message = ''Redundant comment explaining variable assignment to itself '' @ mdash @ '' peak AI slop'',
     p_severity = High,
     p_description = ''e.g., const count = count; // assign count to count'',
     p_skipTests = False,
     p_skipMocks = False \<rparr>"

text \<open>\<^verbatim>\<open>/\/\/\s*This (?:function|component|hook|variable|method).* (?:does|is|handles?|returns?|takes?|processes?)/gi\<close>\<close>

definition pat_excessive_boilerplate_comment :: detectionPattern where
  "pat_excessive_boilerplate_comment = \<lparr>
     p_id = ''excessive_boilerplate_comment'',
     p_pattern =
       seqs [Str ''//'', star sp, Str ''This '',
         words [''function'', ''component'', ''hook'', ''variable'', ''method''],
         star Dot, Str '' '',
         alts [Str ''does'', Str ''is'', Seq (Str ''handle'') (opt (Str ''s'')),
               Seq (Str ''return'') (opt (Str ''s'')), Seq (Str ''take'') (opt (Str ''s'')),
               Seq (Str ''processe'') (opt (Str ''s''))]],
     p_ci = True,
     p_message = ''Boilerplate comment that restates the obvious '' @ mdash @ '' adds zero insight'',
     p_severity = Medium,
     p_description = ''AI-generated comments that explain the obvious'',
     p_skipTests = False,
     p_skipMocks = False \<rparr>"

text \<open>\<^verbatim>\<open>/console\.(log|debug|info)\([^)]+\)\s*;\s*\/\/\s*(?:debug|temp|test|check|log|print)/gi\<close>\<close>

definition pat_debug_log_with_comment :: detectionPattern where
  "pat_debug_log_with_comment = \<lparr>
     p_id = ''debug_log_with_comment'',
     p_pattern =
       seqs [Str ''console.'', words [''log'', ''debug'', ''info''], Str ''('',
         plus (none_of '')''), Str '')'', star sp, Str '';'', star sp, Str ''//'', star sp,
         words [''debug'', ''temp'', ''test'', ''check'', ''log'', ''print'']],
     p_ci = True,
     p_message = ''Debug log with apologetic comment '' @ mdash @ '' AI trying to justify its existence'',
     p_severity = Medium,
     p_description = ''Debugging code that should not be in production'',
     p_skipTests = True,
     p_skipMocks = False \<rparr>"

text \<open>\<^verbatim>\<open>/import\s*{\s*(useRouter|useParams|useSearchParams|Link|Image|Script)\s*}\s*from\s*['"]react['"]/gi\<close>\<close>

definition pat_hallucinated_react_import :: detectionPattern where
  "pat_hallucinated_react_import = \<lparr>
     p_id = ''hallucinated_react_import'',
     p_pattern =
       seqs [Str ''import'', star sp, Str ''{'', star sp,
         words [''useRouter'', ''useParams'', ''useSearchParams'', ''Link'', ''Image'', ''Script''],
         star sp, Str ''}'', star sp, Str ''from'', star sp, quote, Str ''react'', quote],
     p_ci = True,
     p_message = ''Hallucinated React import '' @ mdash @ '' these do NOT exist in 'react'' @ [CHR 0x27],
     p_severity = Critical,
     p_description = ''React-specific APIs are NOT in the react package'',
     p_skipTests = False,
     p_skipMocks = False \<rparr>"

text \<open>\<^verbatim>\<open>/import\s*{\s*(getServerSideProps|getStaticProps|getStaticPaths)\s*}\s*from\s*['"]react['"]/gi\<close>\<close>

definition pat_hallucinated_next_import :: detectionPattern where
  "pat_hallucinated_next_import = \<lparr>
     p_id = ''hallucinated_next_import'',
     p_pattern =
       seqs [Str ''import'', star sp, Str ''{'', star sp,
         words [''getServerSideProps'', ''getStaticProps'', ''getStaticPaths''],
         star sp, Str ''}'', star sp, Str ''from'', star sp, quote, Str ''react'', quote],
     p_ci = True,
     p_message = ''Next.js API imported from 'react' '' @ mdash @ '' 100% AI hallucination'',
     p_severity = Critical,
     p_description = ''Next.js APIs are NOT in the react package'',
     p_skipTests = False,
     p_skipMocks = False \<rparr>"

text \<open>\<^verbatim>\<open>/\/\/\s*(?:TODO|FIXME|HACK).*(?:implement|add|finish|complete|your code|logic|here)/gi\<close>\<close>

definition pat_todo_implementation_placeholder :: detectionPattern where
  "pat_todo_implementation_placeholder = \<lparr>
     p_id = ''todo_implementation_placeholder'',
     p_pattern =
       seqs [Str ''//'', star sp, words [''TODO'', ''FIXME'', ''HACK''], star Dot,
         words [''implement'', ''add'', ''finish'', ''complete'', ''your code'', ''logic'', ''here'']],
     p_ci = True,
     p_message = ''AI gave up and wrote a TODO instead of thinking'',
     p_severity = High,
     p_description = ''Placeholder comments where AI failed to implement'',
     p_skipTests = False,
     p_skipMocks = False \<rparr>"

text \<open>\<^verbatim>\<open>/\b(assuming|assumes?|presumably|apparently|it seems|seems like)\b.{0,50}\b(that|this|the|it)\b/gi\<close>\<close>

definition pat_assumption_comment :: detectionPattern where
  "pat_assumption_comment = \<lparr>
     p_id = ''assumption_comment'',
     p_pattern =
       seqs [WordB,
         alts [Str ''assuming'', Seq (Str ''assume'') (opt (Str ''s'')), Str ''presumably'',
               Str ''apparently'', Str ''it seems'', Str ''seems like''],
         WordB, upto 50 Dot, WordB, words [''that'', ''this'', ''the'', ''it''], WordB],
     p_ci = True,
     p_message = ''AI making unverified assumptions '' @ mdash @ '' dangerous in production'',
     p_severity = High,
     p_description = ''Comments indicating unverified assumptions'',
     p_skipTests = False,
     p_skipMocks = False \<rparr>"

text \<open>\<^verbatim>\<open>/\/\/\s*(obviously|clearly|simply|just|easy|trivial|basically|literally|of course|naturally|certainly|surely)\b/gi\<close>\<close>

definition pat_overconfident_comment :: detectionPattern where
  "pat_overconfident_comment = \<lparr>
     p_id = ''overconfident_comment'',
     p_pattern =
       seqs [Str ''//'', star sp,
         words [''obviously'', ''clearly'', ''simply'', ''just'', ''easy'', ''trivial'', ''basically'',
                ''literally'', ''of course'', ''naturally'', ''certainly'', ''surely''],
         WordB],
     p_ci = True,
     p_message = ''Overconfident comment '' @ mdash @ '' AI pretending it understands when it doesn't'',
     p_severity = High,
     p_description = ''Overconfident language indicating false certainty'',
     p_skipTests = False,
     p_skipMocks = False \<rparr>"

text \<open>\<^verbatim>\<open>/\/\/.*\b(should work|hopefully|probably|might work|try this|i think|seems to|attempting to|looks like|appears to)\b/gi\<close>\<close>

definition pat_hedging_uncertainty_comment :: detectionPattern where
  "pat_hedging_uncertainty_comment = \<lparr>
     p_id = ''hedging_uncertainty_comment'',
     p_pattern =
       seqs [Str ''//'', star Dot, WordB,
         words [''should work'', ''hopefully'', ''probably'', ''might work'', ''try this'',
                ''i think'', ''seems to'', ''attempting to'', ''looks like'', ''appears to''],
         WordB],
     p_ci = True,
     p_message = ''AI hedging its bets '' @ mdash @ '' classic sign of low-confidence generation'',
     p_severity = High,
     p_description = ''Uncertain language masked as implementation'',
     p_skipTests = False,
     p_skipMocks = False \<rparr>"

text \<open>\<^verbatim>\<open>/\bconst\s+\w+\s*=\s*\(\s*async\s*\(\)\s*=>\s*\{[\s\S]*?\}\)\(\)/g\<close>\<close>

definition pat_unnecessary_iife_wrapper :: detectionPattern where
  "pat_unnecessary_iife_wrapper = \<lparr>
     p_id = ''unnecessary_iife_wrapper'',
     p_pattern =
       seqs [WordB, Str ''const'', plus sp, plus wd, star sp, Str ''='', star sp, Str ''('',
         star sp, Str ''async'', star sp, Str ''()'', star sp, Str ''=>'', star sp, Str ''{'',
         lazy_star (Cls False [Space, NonSpace]), Str ''})()''],
     p_ci = False,
     p_message = ''Unnecessary IIFE wrapper '' @ mdash @ '' AI over-engineering a simple async call'',
     p_severity = Medium,
     p_description = ''Unnecessarily complex function wrapping'',
     p_skipTests = False,
     p_skipMocks = False \<rparr>"

text \<open>\<^verbatim>\<open>/\?\s*['"][^'"]+['"]\s*:\s*['"][^'"]+['"]\s*\?\s*['"][^'"]+['"]\s*:\s*['"][^'"]+['"]/g\<close>\<close>

definition pat_vibe_coded_ternary_abuse :: detectionPattern where
  "pat_vibe_coded_ternary_abuse = \<lparr>
     p_id = ''vibe_coded_ternary_abuse'',
     p_pattern =
       seqs [Str ''?'', star sp, quote, plus not_quote, quote, star sp,
         Str '':'', star sp, quote, plus not_quote, quote, star sp,
         Str ''?'', star sp, quote, plus not_quote, quote, star sp,
         Str '':'', star sp, quote, plus not_quote, quote],
     p_ci = False,
     p_message = ''Nested ternary hell '' @ mdash @ '' AI trying to look clever'',
     p_severity = Medium,
     p_description = ''Overly complex nested ternary operations'',
     p_skipTests = False,
     p_skipMocks = False \<rparr>"

text \<open>\<^verbatim>\<open>/\b(\d{3,4}px|#\w{6}|rgba?\([^)]+\)|hsl\(\d+)/g\<close>\<close>

definition pat_magic_css_value :: detectionPattern where
  "pat_magic_css_value = \<lparr>
     p_id = ''magic_css_value'',
     p_pattern =
       seqs [WordB,
         alts [seqs [times 3 dg, opt dg, Str ''px''],
               Seq (Str ''#'') (times 6 wd),
               seqs [Str ''rgb'', opt (Str ''a''), Str ''('', plus (none_of '')''), Str '')''],
               seqs [Str ''hsl('', plus dg]]],
     p_ci = False,
     p_message = ''Magic CSS value '' @ mdash @ '' extract to design token or const'',
     p_severity = Low,
     p_description = ''Hardcoded CSS values that should be constants'',
     p_skipTests = False,
     p_skipMocks = False \<rparr>"

text \<open>\<^verbatim>\<open>/useEffect\s*\(\s*\(\s*\)\s*=>\s*\{[^}]*set[A-Z]\w*\([^)]*\)/g\<close>\<close>

definition pat_useEffect_derived_state :: detectionPattern where
  "pat_useEffect_derived_state = \<lparr>
     p_id = ''useEffect_derived_state'',
     p_pattern =
       seqs [Str ''useEffect'', star sp, Str ''('', star sp, Str ''('', star sp, Str '')'', star sp,
         Str ''=>'', star sp, Str ''{'', star (none_of ''}''), Str ''set'',
         Cls False [Range CHR ''A'' CHR ''Z''], star wd, Str ''('', star (none_of '')''), Str '')''],
     p_ci = False,
     p_message = ''useEffect setting state from props/other state '' @ mdash @ '' consider useMemo or compute in render'',
     p_severity = High,
     p_description = ''Using useEffect to derive state is often unnecessary'',
     p_skipTests = False,
     p_skipMocks = False \<rparr>"

text \<open>\<^verbatim>\<open>/useEffect\s*\([^,]+,\s*\[\s*\]\s*\)/g\<close>\<close>

definition pat_useEffect_empty_deps_suspicious :: detectionPattern where
  "pat_useEffect_empty_deps_suspicious = \<lparr>
     p_id = ''useEffect_empty_deps_suspicious'',
     p_pattern =
       seqs [Str ''useEffect'', star sp, Str ''('', plus (none_of '',''), Str '','', star sp,
         Str ''['', star sp, Str '']'', star sp, Str '')''],
     p_ci = False,
     p_message = ''useEffect with empty deps '' @ mdash @ '' verify this truly should only run on mount'',
     p_severity = Medium,
     p_description = ''Empty dependency arrays are often a sign of missing dependencies'',
     p_skipTests = False,
     p_skipMocks = False \<rparr>"

text \<open>\<^verbatim>\<open>/(?:for|while|forEach|map)\s*\([^)]+\)[^{]*\{[^}]*set[A-Z]\w*\(/g\<close>\<close>

definition pat_setState_in_loop :: detectionPattern where
  "pat_setState_in_loop = \<lparr>
     p_id = ''setState_in_loop'',
     p_pattern =
       seqs [words [''for'', ''while'', ''forEach'', ''map''], star sp, Str ''('',
         plus (none_of '')''), Str '')'', star (none_of ''{''), Str ''{'', star (none_of ''}''),
         Str ''set'', Cls False [Range CHR ''A'' CHR ''Z''], star wd, Str ''(''],
     p_ci = False,
     p_message = ''setState inside a loop '' @ mdash @ '' may cause multiple re-renders'',
     p_severity = High,
     p_description = ''Calling setState in a loop triggers multiple re-renders'',
     p_skipTests = False,
     p_skipMocks = False \<rparr>"

text \<open>\<^verbatim>\<open>/useCallback\s*\([^,]+,\s*\[\s*\]\s*\)/g\<close>\<close>

definition pat_useCallback_no_deps :: detectionPattern where
  "pat_useCallback_no_deps = \<lparr>
     p_id = ''useCallback_no_deps'',
     p_pattern =
       seqs [Str ''useCallback'', star sp, Str ''('', plus (none_of '',''), Str '','', star sp,
         Str ''['', star sp, Str '']'', star sp, Str '')''],
     p_ci = False,
     p_message = ''useCallback with empty deps '' @ mdash @ '' the callback never updates'',
     p_severity = Medium,
     p_description = ''Empty deps means the callback is stale and may use outdated values'',
     p_skipTests = False,
     p_skipMocks = False \<rparr>"

text \<open>\<^verbatim>\<open>/:\s*any\b/g\<close>\<close>

definition pat_any_type_usage :: detectionPattern where
  "pat_any_type_usage = \<lparr>
     p_id = ''any_type_usage'',
     p_pattern =
       seqs [Str '':'', star sp, Str ''any'', WordB],
     p_ci = False,
     p_message = ''Found 'any' type usage. Replace with specific type or unknown.'',
     p_severity = High,
     p_description = ''Detects : any type annotations'',
     p_skipTests = False,
     p_skipMocks = False \<rparr>"

text \<open>\<^verbatim>\<open>/Array\s*<\s*any\s*>/g\<close>\<close>

definition pat_array_any_type :: detectionPattern where
  "pat_array_any_type = \<lparr>
     p_id = ''array_any_type'',
     p_pattern =
       seqs [Str ''Array'', star sp, Str ''<'', star sp, Str ''any'', star sp, Str ''>''],
     p_ci = False,
     p_message = ''Found Array<any> type usage. Replace with specific type or unknown[].'',
     p_severity = High,
     p_description = ''Detects Array<any> patterns'',
     p_skipTests = False,
     p_skipMocks = False \<rparr>"

text \<open>\<^verbatim>\<open>/<\s*any\s*>/g\<close>\<close>

definition pat_generic_any_type :: detectionPattern where
  "pat_generic_any_type = \<lparr>
     p_id = ''generic_any_type'',
     p_pattern =
       seqs [Str ''<'', star sp, Str ''any'', star sp, Str ''>''],
     p_ci = False,
     p_message = ''Found generic <any> type usage. Replace with specific type or unknown.'',
     p_severity = High,
     p_description = ''Detects generic type parameters with any'',
     p_skipTests = False,
     p_skipMocks = False \<rparr>"

text \<open>\<^verbatim>\<open>/\(\s*.*\s*:\s*any\s*\)/g\<close>\<close>

definition pat_function_param_any_type :: detectionPattern where
  "pat_function_param_any_type = \<lparr>
     p_id = ''function_param_any_type'',
     p_pattern =
       seqs [Str ''('', star sp, star Dot, star sp, Str '':'', star sp, Str ''any'', star sp, Str '')''],
     p_ci = False,
     p_message = ''Found function parameter with 'any' type. Replace with specific type or unknown.'',
     p_severity = High,
     p_description = ''Detects function parameters with any type'',
     p_skipTests = False,
     p_skipMocks = False \<rparr>"

text \<open>\<^verbatim>\<open>/\s+as\s+any\b/g\<close>\<close>

definition pat_unsafe_type_assertion :: detectionPattern where
  "pat_unsafe_type_assertion = \<lparr>
     p_id = ''unsafe_type_assertion'',
     p_pattern =
       seqs [plus sp, Str ''as'', plus sp, Str ''any'', WordB],
     p_ci = False,
     p_message = ''Found unsafe 'as any' type assertion. Use proper type guards or validation.'',
     p_severity = High,
     p_description = ''Detects unsafe as any assertions'',
     p_skipTests = False,
     p_skipMocks = False \<rparr>"

text \<open>\<^verbatim>\<open>/as\s+\w+\s+as\s+\w+/g\<close>\<close>

definition pat_unsafe_double_type_assertion :: detectionPattern where
  "pat_unsafe_double_type_assertion = \<lparr>
     p_id = ''unsafe_double_type_assertion'',
     p_pattern =
       seqs [Str ''as'', plus sp, plus wd, plus sp, Str ''as'', plus sp, plus wd],
     p_ci = False,
     p_message = ''Found unsafe double type assertion. Consider using 'as unknown as Type' for safe conversions.'',
     p_severity = High,
     p_description = ''Detects unsafe double type assertions'',
     p_skipTests = False,
     p_skipMocks = False \<rparr>"

text \<open>\<^verbatim>\<open>/\[\s*["'`]?(\w+)["'`]?[^\]]*\]\s*:\s*any/g\<close>\<close>

definition pat_index_signature_any :: detectionPattern where
  "pat_index_signature_any = \<lparr>
     p_id = ''index_signature_any'',
     p_pattern =
       seqs [Str ''['', star sp, opt any_quote, plus wd, opt any_quote, star (none_of '']''),
         Str '']'', star sp, Str '':'', star sp, Str ''any''],
     p_ci = False,
     p_message = ''Found index signature with 'any' type. Replace with specific type or unknown.'',
     p_severity = High,
     p_description = ''Detects index signatures with any type'',
     p_skipTests = False,
     p_skipMocks = False \<rparr>"

text \<open>\<^verbatim>\<open>/(fetch|axios|http)\s*\(/g\<close>\<close>

definition pat_missing_error_handling :: detectionPattern where
  "pat_missing_error_handling = \<lparr>
     p_id = ''missing_error_handling'',
     p_pattern =
       seqs [words [''fetch'', ''axios'', ''http''], star sp, Str ''(''],
     p_ci = False,
     p_message = ''Potential missing error handling for promise. Consider adding try/catch or .catch().'',
     p_severity = Medium,
     p_description = ''Detects calls that might need error handling'',
     p_skipTests = True,
     p_skipMocks = False \<rparr>"

text \<open>\<^verbatim>\<open>/console\.(log|warn|error|info|debug|trace)\(/g\<close>\<close>

definition pat_production_console_log :: detectionPattern where
  "pat_production_console_log = \<lparr>
     p_id = ''production_console_log'',
     p_pattern =
       seqs [Str ''console.'', words [''log'', ''warn'', ''error'', ''info'', ''debug'', ''trace''], Str ''(''],
     p_ci = False,
     p_message = ''Found console logging in production code. Remove before deployment.'',
     p_severity = Medium,
     p_description = ''Detects console logs in production code'',
     p_skipTests = True,
     p_skipMocks = True \<rparr>"

text \<open>\<^verbatim>\<open>/(TODO|FIXME|HACK|XXX|BUG)\b/g\<close>\<close>

definition pat_todo_comment :: detectionPattern where
  "pat_todo_comment = \<lparr>
     p_id = ''todo_comment'',
     p_pattern =
       seqs [words [''TODO'', ''FIXME'', ''HACK'', ''XXX'', ''BUG''], WordB],
     p_ci = False,
     p_message = ''Found TODO/FIXME/HACK comment indicating incomplete implementation.'',
     p_severity = Medium,
     p_description = ''Detects incomplete implementation markers'',
     p_skipTests = False,
     p_skipMocks = False \<rparr>"

text \<open>\<^verbatim>\<open>/\.\s*any\s*\[/g\<close>\<close>

definition pat_unsafe_member_access :: detectionPattern where
  "pat_unsafe_member_access = \<lparr>
     p_id = ''unsafe_member_access'',
     p_pattern =
       seqs [Str ''.'', star sp, Str ''any'', star sp, Str ''[''],
     p_ci = False,
     p_message = ''Found potentially unsafe member access on 'any' type.'',
     p_severity = High,
     p_description = ''Detects unsafe member access patterns'',
     p_skipTests = False,
     p_skipMocks = False \<rparr>"

text \<open>The built-in rule table, in registry order.\<close>

definition detectionPatterns :: "detectionPattern list" where
  "detectionPatterns =
    [pat_redundant_self_explanatory_comment,
     pat_excessive_boilerplate_comment,
     pat_debug_log_with_comment,
     pat_hallucinated_react_import,
     pat_hallucinated_next_import,
     pat_todo_implementation_placeholder,
     pat_assumption_comment,
     pat_overconfident_comment,
     pat_hedging_uncertainty_comment,
     pat_unnecessary_iife_wrapper,
     pat_vibe_coded_ternary_abuse,
     pat_magic_css_value,
     pat_useEffect_derived_state,
     pat_useEffect_empty_deps_suspicious,
     pat_setState_in_loop,
     pat_useCallback_no_deps,
     pat_any_type_usage,
     pat_array_any_type,
     pat_generic_any_type,
     pat_function_param_any_type,
     pat_unsafe_type_assertion,
     pat_unsafe_double_type_assertion,
     pat_index_signature_any,
     pat_missing_error_handling,
     pat_production_console_log,
     pat_todo_comment,
     pat_unsafe_member_access]"

subsection \<open>Failures\<close>

text \<open>
  \<open>Error msg\<close> is \<^verbatim>\<open>throw new Error(msg)\<close>; \<open>TypeError\<close> is the host's exception
  on reading a property of \<^verbatim>\<open>undefined\<close> or \<^verbatim>\<open>null\<close>; \<open>NonTermination\<close>
  stands for a run that never returns.
\<close>

datatype error = Error string | TypeError | NonTermination

subsection \<open>Fetch/call error-handling heuristic\<close>

text \<open>The anchor test of the backward scan, for the line at index \<open>i\<close>.\<close>

definition functionStartAt :: "string list \<Rightarrow> nat \<Rightarrow> bool" where
  "functionStartAt lines i =
     (let line = lines ! i in
        ((includesStr line ''async function'' \<or>
          includesStr line ''function'' \<or>
          includesStr line ''=>'' \<or>
          (includesStr line ''const'' \<and>
             (includesStr line ''useState'' \<or> includesStr line ''useEffect'' \<or>
              includesStr line ''useCallback'' \<or> includesStr line ''useMemo'')) \<or>
          includesStr line ''export default function'')
         \<and> (includesStr line ''{'' \<or> includesStr line ''=>''))
        \<or> (0 < i \<and> includesStr (lines ! (i - 1) @ line) ''=>''
             \<and> startsWith (trim line) ''{''))"

text \<open>
  \<^verbatim>\<open>for (let i = fetchLineIndex; i >= Math.max(0, fetchLineIndex - 20); i--)\<close>;
  \<open>None\<close> is the source's \<open>-1\<close>.
\<close>

function findFunctionStart :: "string list \<Rightarrow> nat \<Rightarrow> nat \<Rightarrow> nat option" where
  "findFunctionStart lines lo i =
     (if functionStartAt lines i then Some i
      else if lo < i then findFunctionStart lines lo (i - 1)
      else None)"
  by pat_completeness auto
termination
  by (relation "measure (\<lambda>(lines, lo, i). i)") auto

declare findFunctionStart.simps [simp del]

text \<open>
  The character loop of the forward scan over one line: brace count and
  \<^verbatim>\<open>inFunction\<close> before, and after (with whether the function end was found
  on this line).
\<close>

fun scanBraces :: "bool \<Rightarrow> string \<Rightarrow> int \<Rightarrow> bool \<Rightarrow> int \<times> bool \<times> bool" where
  "scanBraces isStart [] braceCount inFunction = (braceCount, inFunction, False)"
| "scanBraces isStart (c # cs) braceCount inFunction =
     (if c = CHR ''{'' then
        scanBraces isStart cs (braceCount + 1)
          (inFunction \<or> (isStart \<and> braceCount + 1 = 1))
      else if c = CHR ''}'' then
        (if inFunction \<and> braceCount - 1 = 0 then (braceCount - 1, inFunction, True)
         else scanBraces isStart cs (braceCount - 1) inFunction)
      else scanBraces isStart cs braceCount inFunction)"

text \<open>
  \<^verbatim>\<open>for (let i = ...; i < lines.length && i < fetchLineIndex + 20; i++)\<close>
\<close>

function findFunctionEnd :: "string list \<Rightarrow> nat option \<Rightarrow> nat \<Rightarrow> nat \<Rightarrow> int \<Rightarrow> bool \<Rightarrow> nat option" where
  "findFunctionEnd lines functionStart lim i braceCount inFunction =
     (if i < length lines \<and> i < lim then
        (case scanBraces (functionStart = Some i) (lines ! i) braceCount inFunction of
           (braceCount', inFunction', ended) \<Rightarrow>
             if ended then Some i
             else findFunctionEnd lines functionStart lim (i + 1) braceCount' inFunction')
      else None)"
  by pat_completeness auto
termination
  by (relation "measure (\<lambda>(lines, fs, lim, i, bc, inF). length lines - i)") auto

declare findFunctionEnd.simps [simp del]

text \<open>The tokens that count as error handling inside the function scope.\<close>

definition hasGuardToken :: "string \<Rightarrow> bool" where
  "hasGuardToken line =
     (includesStr line ''.catch('' \<or> includesStr line ''try {'' \<or> includesStr line ''try{'')"

text \<open>The test of the fallback window, for the line at index \<open>i\<close>.\<close>

definition nearbyGuardAt :: "string list \<Rightarrow> nat \<Rightarrow> bool" where
  "nearbyGuardAt lines i =
     (let line = lines ! i in
        includesStr line ''.catch('' \<or> includesStr line ''try {'' \<or> includesStr line ''try{'' \<or>
        (0 < i \<and> includesStr (lines ! (i - 1)) ''try'' \<and> includesStr line ''.catch(''))"

text \<open>
  The promise-chain loop
  \<^verbatim>\<open>for (let i = fetchLineIndex; i < Math.min(lines.length, fetchLineIndex + 5); i++)\<close>.
\<close>

function chainHasCatch :: "string list \<Rightarrow> nat \<Rightarrow> nat \<Rightarrow> bool" where
  "chainHasCatch lines lim i =
     (if i < lim then
        (let line = lines ! i in
           if includesStr line ''.catch('' then True
           else if includesStr line '';'' \<and> \<not> endsWith (trim line) [CHR 0x5C]
                   \<and> \<not> endsWith (trim line) '','' then False
           else chainHasCatch lines lim (i + 1))
      else False)"
  by pat_completeness auto
termination
  by (relation "measure (\<lambda>(lines, lim, i). lim - i)") auto

declare chainHasCatch.simps [simp del]

text \<open>
  \<^verbatim>\<open>isFetchCallProperlyHandled(lines, fetchLineIndex, fetchCallIndex)\<close>.  With
  \<open>fetchLineIndex\<close> outside the array the first \<^verbatim>\<open>line.includes\<close> throws; inside
  it every index the function reads is in range.
\<close>

definition isFetchCallProperlyHandled :: "string list \<Rightarrow> nat \<Rightarrow> nat \<Rightarrow> error + bool" where
  "isFetchCallProperlyHandled lines fetchLineIndex fetchCallIndex =
     (if \<not> fetchLineIndex < length lines then Inl TypeError
      else
        let functionStart = findFunctionStart lines (fetchLineIndex - 20) fetchLineIndex;
            functionEnd = findFunctionEnd lines functionStart (fetchLineIndex + 20)
                            (case functionStart of None \<Rightarrow> 0 | Some s \<Rightarrow> s) 0 False
        in case (functionStart, functionEnd) of
             (Some s, Some e) \<Rightarrow>
               if list_ex (\<lambda>i. hasGuardToken (lines ! i)) [s ..< e + 1] then Inr True
               else
                 let currentLine = lines ! fetchLineIndex in
                 if includesStr currentLine ''fetch('' \<and>
                    (includesStr currentLine ''.then('' \<or> includesStr currentLine ''.catch('') \<and>
                    chainHasCatch lines (min (length lines) (fetchLineIndex + 5)) fetchLineIndex
                 then Inr True
                 else Inr False
           | _ \<Rightarrow>
               Inr (list_ex (nearbyGuardAt lines)
                      [fetchLineIndex - 2 ..< min (length lines) (fetchLineIndex + 3)]))"

subsection \<open>Try/catch enclosure heuristic\<close>

text \<open>\<^verbatim>\<open>catchBlockStartLine > i\<close>, with \<open>None\<close> for the initial \<open>-1\<close>.\<close>

definition catchBelow :: "nat option \<Rightarrow> nat \<Rightarrow> bool" where
  "catchBelow catchBlockStartLine i =
     (case catchBlockStartLine of None \<Rightarrow> False | Some k \<Rightarrow> i < k)"

text \<open>
  The body of \<^verbatim>\<open>for (let i = lineIndex; i >= 0; i--)\<close> with the two loop
  variables \<^verbatim>\<open>tryBlockDepth\<close> and \<^verbatim>\<open>catchBlockStartLine\<close>: whether the
  body returns \<^verbatim>\<open>true\<close>, and the variables after it.
\<close>

definition tryCatchStep :: "string list \<Rightarrow> nat \<Rightarrow> nat \<Rightarrow> nat option \<Rightarrow> bool \<times> nat \<times> nat option" where
  "tryCatchStep lines i tryBlockDepth catchBlockStartLine =
     (let line = lines ! i;
          hasCatch = includesStr line ''catch ('';
          catchLine = (if hasCatch then Some i else catchBlockStartLine);
          openBraces = count_list line CHR ''{'';
          closeBraces = count_list line CHR ''}'';
          depth = (if closeBraces < openBraces then tryBlockDepth + 1
                   else if openBraces < closeBraces
                   then tryBlockDepth - (closeBraces - openBraces)
                   else tryBlockDepth) in
      if hasCatch \<and>
         (includesStr line ''{'' \<or>
          list_ex (\<lambda>j. includesStr (lines ! j) ''{'') [i + 1 ..< min (i + 5) (length lines)])
      then (True, tryBlockDepth, catchLine)
      else if (includesStr line ''try {'' \<or> (includesStr line ''try'' \<and> includesStr line ''{''))
              \<and> catchBelow catchLine i
      then (True, tryBlockDepth, catchLine)
      else if depth = 0 \<and> catchBelow catchLine i then (True, depth, catchLine)
      else (False, depth, catchLine))"

function tryCatchScan :: "string list \<Rightarrow> nat \<Rightarrow> nat \<Rightarrow> nat option \<Rightarrow> bool" where
  "tryCatchScan lines i tryBlockDepth catchBlockStartLine =
     (case tryCatchStep lines i tryBlockDepth catchBlockStartLine of
        (True, depth, catchLine) \<Rightarrow> True
      | (False, depth, catchLine) \<Rightarrow>
          if 0 < i then tryCatchScan lines (i - 1) depth catchLine else False)"
  by pat_completeness auto
termination
  by (relation "measure (\<lambda>(lines, i, d, c). i)") auto

declare tryCatchScan.simps [simp del]

text \<open>\<^verbatim>\<open>isInTryCatchBlock(lines, lineIndex)\<close>\<close>

definition isInTryCatchBlock :: "string list \<Rightarrow> nat \<Rightarrow> error + bool" where
  "isInTryCatchBlock lines lineIndex =
     (if \<not> lineIndex < length lines then Inl TypeError
      else Inr (tryCatchScan lines lineIndex 0 None))"

subsection \<open>Nested-control heuristic\<close>

text \<open>\<^verbatim>\<open>/\bif\s*\(/g\<close>, \<^verbatim>\<open>/\bfor\s*\(/g\<close> and \<^verbatim>\<open>/\bwhile\s*\(/g\<close>.\<close>

definition controlOpener :: "string \<Rightarrow> rx" where
  "controlOpener kw = seqs [WordB, Str kw, star sp, Str ''('']"

text \<open>
  \<^verbatim>\<open>analyzeComplexNestedConditionals(filePath, lines, lineIndex, lineNumber, line)\<close>:
  the issues it pushes, in order.
\<close>

definition analyzeComplexNestedConditionals ::
    "string \<Rightarrow> string list \<Rightarrow> nat \<Rightarrow> nat \<Rightarrow> string \<Rightarrow> aiSlopIssue list" where
  "analyzeComplexNestedConditionals filePath lines lineIndex lineNumber line =
     (let ifMatches = matchAllG False (controlOpener ''if'') [] line;
          forMatches = matchAllG False (controlOpener ''for'') [] line;
          whileMatches = matchAllG False (controlOpener ''while'') [] line;
          indentation = search_nonspace line;
          trimmedLine = trim line in
      (if (ifMatches \<noteq> [] \<and> 1 < length ifMatches) \<or>
          (forMatches \<noteq> [] \<and> 1 < length forMatches) \<or>
          (whileMatches \<noteq> [] \<and> 1 < length whileMatches) \<or>
          (ifMatches \<noteq> [] \<and> (forMatches \<noteq> [] \<or> whileMatches \<noteq> [])) \<or>
          (forMatches \<noteq> [] \<and> whileMatches \<noteq> [])
       then [\<lparr> i_type = ''complex_nested_conditionals'',
               i_file = filePath,
               i_line = lineNumber,
               i_column = 1,
               i_code = trim line,
               i_message = ''Found potentially complex nested control structures in a single line. Consider refactoring for readability.'',
               i_severity = Medium \<rparr>]
       else []) @
      (case indentation of
         None \<Rightarrow> []
       | Some ind \<Rightarrow>
           if 16 \<le> ind \<and> (includesStr line ''if ('' \<or> includesStr line ''for ('' \<or>
                            includesStr line ''while ('')
              \<and> \<not> startsWith trimmedLine ''//'' \<and> \<not> includesStr trimmedLine ''=>''
           then [\<lparr> i_type = ''complex_nested_conditionals'',
                   i_file = filePath,
                   i_line = lineNumber,
                   i_column = ind + 1,
                   i_code = trim line,
                   i_message = ''Highly indented control structure suggests deep nesting. Consider refactoring for readability.'',
                   i_severity = Medium \<rparr>]
           else []))"

subsection \<open>Scanning a file\<close>

text \<open>The two file categories of \<^verbatim>\<open>analyzeFile\<close>.\<close>

definition isTestFile :: "string \<Rightarrow> bool" where
  "isTestFile filePath =
     (includesStr filePath ''__tests__'' \<or>
      includesStr filePath ''.test.'' \<or>
      includesStr filePath ''.spec.'' \<or>
      includesStr filePath ''__mocks__'' \<or>
      includesStr filePath ''test-'')"

definition isMockFile :: "string \<Rightarrow> bool" where
  "isMockFile filePath = (includesStr filePath ''__mocks__'' \<or> includesStr filePath ''mock'')"

text \<open>\<^verbatim>\<open>s.toLowerCase()\<close>\<close>

definition toLowerCase :: "string \<Rightarrow> string" where
  "toLowerCase s = map toLower s"

text \<open>
  The inline acknowledgment test of the whitelisting phase, on the current
  and the previous line (\<^verbatim>\<open>''\<close> for the first line of a file).
\<close>

definition acknowledged :: "string \<Rightarrow> string \<Rightarrow> bool" where
  "acknowledged line prevLine =
     (includesStr line ''eslint-disable'' \<or> includesStr line ''@ts-expect-error'' \<or>
      includesStr line ''@ts-ignore'' \<or> includesStr prevLine ''eslint-disable-next-line'' \<or>
      includesStr prevLine ''@ts-expect-error'')"

text \<open>
  The body of the \<^verbatim>\<open>while\<close> loop of \<^verbatim>\<open>analyzeFile\<close> up to the
  \<^verbatim>\<open>this.issues.push\<close> is a chain of \<^verbatim>\<open>if (...) continue;\<close> statements.
  \<open>whitelistedEarly\<close> holds when one of those before the error-handling check
  is taken, in the order of the source.
\<close>

definition whitelistedEarly :: "detectionPattern \<Rightarrow> string \<Rightarrow> string list \<Rightarrow> nat \<Rightarrow> bool" where
  "whitelistedEarly pattern filePath lines i =
     (let line = lines ! i;
          pid = p_id pattern;
          prevLine = (if 0 < i then lines ! (i - 1) else []) in
      if (includesStr pid ''any'' \<or> includesStr pid ''unsafe'') \<and> acknowledged line prevLine
      then True
      else if includesStr pid ''any'' \<and> endsWith filePath ''.d.ts'' then True
      else if pid = ''any_type_usage'' \<and>
              (includesStr line ''expect.any('' \<or> includesStr line ''jest.fn()'') then True
      else if pid = ''any_type_usage'' \<and> includesStr line ''{...'' \<and> includesStr line ''as any''
      then True
      else if pid = ''any_type_usage'' \<and>
              (includesStr line ''JSON.parse('' \<or> includesStr line ''.json'' \<or>
               includesStr line ''response.json'') then True
      else if pid = ''any_type_usage'' \<and>
              (includesStr line ''ApiResponse'' \<or> includesStr line ''apiResponse'' \<or>
               includesStr line ''res.json'' \<or> includesStr line ''fetch'' \<or>
               includesStr line ''axios'') then True
      else if pid = ''any_type_usage'' \<and>
              (includesStr line ''data: any'' \<or> includesStr line ''(data: any)'' \<or>
               includesStr line ''result: any'' \<or> includesStr line ''response: any'') \<and>
              (includesStr line ''parse'' \<or> includesStr line ''process'' \<or>
               includesStr line ''transform'') then True
      else if pid = ''function_param_any_type'' \<and>
              includesStr line ''(data: any)'' \<and>
              (includesStr line ''parse'' \<or> includesStr line ''process'' \<or>
               includesStr line ''transform'') then True
      else if pid = ''function_param_any_type'' \<and>
              (includesStr line ''ApiResponse'' \<or> includesStr line ''apiResponse'' \<or>
               includesStr line ''JSON.parse'' \<or> includesStr line ''response: any'')
      then True
      else False)"

text \<open>The \<^verbatim>\<open>continue\<close> statements after the try/catch check, in the order of the source.\<close>

definition whitelistedLate :: "detectionPattern \<Rightarrow> string \<Rightarrow> bool \<Rightarrow> string \<Rightarrow> bool" where
  "whitelistedLate pattern filePath quiet line =
     (let pid = p_id pattern;
          fullLine = trim line in
      if pid = ''production_console_log'' \<and> includesStr fullLine ''console.log('' \<and>
         (includesStr fullLine ''Debug'' \<or> includesStr fullLine ''debug'' \<or>
          includesStr fullLine ''debug:'') then True
      else if pid = ''production_console_log'' \<and>
              (includesStr fullLine ''console.log('' \<or> includesStr fullLine ''console.info('') \<and>
              (includesStr fullLine ''error'' \<or> includesStr fullLine ''Error'')
      then True
      else if (pid = ''hedging_uncertainty_comment'' \<or> pid = ''assumption_comment'') \<and>
              (includesStr filePath ''test'' \<or> includesStr filePath ''spec'' \<or>
               includesStr filePath ''__tests__'') then True
      else if (pid = ''hedging_uncertainty_comment'' \<or> pid = ''assumption_comment'') \<and>
              includesStr (toLowerCase fullLine) ''should work'' \<and>
              (includesStr (toLowerCase fullLine) ''//'' \<or>
               includesStr (toLowerCase fullLine) ''/*'' \<or>
               includesStr (toLowerCase fullLine) ''*/'') then True
      else if pid = ''unsafe_type_assertion'' \<and>
              (includesStr filePath ''test'' \<or> includesStr filePath ''spec'' \<or>
               includesStr filePath ''__tests__'') then True
      else if quiet \<and> pid \<noteq> ''production_console_log'' \<and> isTestFile filePath then True
      else False)"

text \<open>
  The \<^verbatim>\<open>continue\<close> statements from the error-handling check on: \<open>Inr True\<close>
  when one of them is reached.
\<close>

definition skipAfterWhitelist ::
    "detectionPattern \<Rightarrow> string \<Rightarrow> bool \<Rightarrow> string list \<Rightarrow> nat \<Rightarrow> nat \<Rightarrow> error + bool" where
  "skipAfterWhitelist pattern filePath quiet lines i matchIndex =
     (case (if p_id pattern = ''missing_error_handling''
            then isFetchCallProperlyHandled lines i matchIndex else Inr False) of
        Inl e \<Rightarrow> Inl e
      | Inr isProperlyHandled \<Rightarrow>
          if isProperlyHandled then Inr True
          else if p_id pattern = ''unsafe_double_type_assertion'' \<and>
                  includesStr (trim (lines ! i)) ''as unknown as'' then Inr True
          else
            (case (if p_id pattern = ''production_console_log'' \<and>
                      includesStr (trim (lines ! i)) ''console.error(''
                   then isInTryCatchBlock lines i else Inr False) of
               Inl e \<Rightarrow> Inl e
             | Inr inCatch \<Rightarrow>
                 if inCatch then Inr True
                 else Inr (whitelistedLate pattern filePath quiet (lines ! i))))"

text \<open>
  The whole chain for one match: \<open>Inr True\<close> when a \<^verbatim>\<open>continue\<close> is reached,
  \<open>Inr False\<close> when the match goes on to \<^verbatim>\<open>this.issues.push\<close>.
\<close>

definition skipMatch ::
    "detectionPattern \<Rightarrow> string \<Rightarrow> bool \<Rightarrow> string list \<Rightarrow> nat \<Rightarrow> nat \<Rightarrow> error + bool" where
  "skipMatch pattern filePath quiet lines i matchIndex =
     (if whitelistedEarly pattern filePath lines i then Inr True
      else skipAfterWhitelist pattern filePath quiet lines i matchIndex)"

text \<open>The issue pushed for a match that no \<^verbatim>\<open>continue\<close> skipped.\<close>

definition mkIssue :: "detectionPattern \<Rightarrow> string \<Rightarrow> nat \<Rightarrow> nat \<times> string \<Rightarrow> aiSlopIssue" where
  "mkIssue pattern filePath lineNumber m =
     \<lparr> i_type = p_id pattern,
       i_file = filePath,
       i_line = lineNumber,
       i_column = fst m + 1,
       i_code = snd m,
       i_message = p_message pattern @ '' ('' @ p_description pattern @ '')'',
       i_severity = p_severity pattern \<rparr>"

text \<open>The \<^verbatim>\<open>while\<close> loop over the matches of one pattern on one line.\<close>

fun matchLoop ::
    "detectionPattern \<Rightarrow> string \<Rightarrow> bool \<Rightarrow> string list \<Rightarrow> nat \<Rightarrow> (nat \<times> string) list
      \<Rightarrow> error + aiSlopIssue list" where
  "matchLoop pattern filePath quiet lines i [] = Inr []"
| "matchLoop pattern filePath quiet lines i (m # later) =
     (case skipMatch pattern filePath quiet lines i (fst m) of
        Inl e \<Rightarrow> Inl e
      | Inr skip \<Rightarrow>
          (case matchLoop pattern filePath quiet lines i later of
             Inl e \<Rightarrow> Inl e
           | Inr rest \<Rightarrow>
               Inr (if skip then rest else mkIssue pattern filePath (i + 1) m # rest)))"

text \<open>One pattern on one line: the body of \<^verbatim>\<open>for (const pattern of this.detectionPatterns)\<close>.\<close>

definition scanPattern ::
    "detectionPattern \<Rightarrow> string \<Rightarrow> bool \<Rightarrow> string list \<Rightarrow> nat \<Rightarrow> error + aiSlopIssue list" where
  "scanPattern pattern filePath quiet lines i =
     (if (p_skipTests pattern \<and> isTestFile filePath) \<or> (p_skipMocks pattern \<and> isMockFile filePath)
      then Inr []
      else if p_id pattern = ''complex_nested_conditionals'' then Inr []
      else case execAll (p_ci pattern) (p_pattern pattern) [] (lines ! i) of
             None \<Rightarrow> Inl NonTermination
           | Some found \<Rightarrow> matchLoop pattern filePath quiet lines i found)"

fun scanPatterns ::
    "detectionPattern list \<Rightarrow> string \<Rightarrow> bool \<Rightarrow> string list \<Rightarrow> nat \<Rightarrow> error + aiSlopIssue list" where
  "scanPatterns [] filePath quiet lines i = Inr []"
| "scanPatterns (p # ps) filePath quiet lines i =
     (case scanPattern p filePath quiet lines i of
        Inl e \<Rightarrow> Inl e
      | Inr found \<Rightarrow>
          (case scanPatterns ps filePath quiet lines i of
             Inl e \<Rightarrow> Inl e
           | Inr rest \<Rightarrow> Inr (found @ rest)))"

text \<open>The body of the loop over the lines: every pattern, then the nested-control pass.\<close>

definition analyzeLine ::
    "detectionPattern list \<Rightarrow> string \<Rightarrow> bool \<Rightarrow> string list \<Rightarrow> nat \<Rightarrow> error + aiSlopIssue list" where
  "analyzeLine patterns filePath quiet lines i =
     (case scanPatterns patterns filePath quiet lines i of
        Inl e \<Rightarrow> Inl e
      | Inr found \<Rightarrow>
          Inr (found @ analyzeComplexNestedConditionals filePath lines i (i + 1) (lines ! i)))"

fun analyzeLines ::
    "detectionPattern list \<Rightarrow> string \<Rightarrow> bool \<Rightarrow> string list \<Rightarrow> nat list \<Rightarrow> error + aiSlopIssue list" where
  "analyzeLines patterns filePath quiet lines [] = Inr []"
| "analyzeLines patterns filePath quiet lines (i # is) =
     (case analyzeLine patterns filePath quiet lines i of
        Inl e \<Rightarrow> Inl e
      | Inr found \<Rightarrow>
          (case analyzeLines patterns filePath quiet lines is of
             Inl e \<Rightarrow> Inl e
           | Inr rest \<Rightarrow> Inr (found @ rest)))"

text \<open>
  \<^verbatim>\<open>analyzeFile(filePath, quiet)\<close> on a file with the given content, with the
  registry \<^verbatim>\<open>this.detectionPatterns\<close> as a parameter: the issues it appends
  to \<^verbatim>\<open>this.issues\<close>, in order.
\<close>

definition analyzeFile ::
    "detectionPattern list \<Rightarrow> string \<Rightarrow> bool \<Rightarrow> string \<Rightarrow> error + aiSlopIssue list" where
  "analyzeFile patterns filePath quiet content =
     (let lines = split_lines content in
      analyzeLines patterns filePath quiet lines [0 ..< length lines])"

subsection \<open>Issue consolidator\<close>

text \<open>
  \<^verbatim>\<open>`${issue.type}|${issue.file}|${issue.code}|${issue.message}|${issue.severity}`\<close>
\<close>

definition issueKey :: "aiSlopIssue \<Rightarrow> string" where
  "issueKey issue =
     i_type issue @ ''|'' @ i_file issue @ ''|'' @ i_code issue @ ''|'' @ i_message issue
       @ ''|'' @ severity_str (i_severity issue)"

text \<open>\<^verbatim>\<open>`${issue.line}:${issue.column}`\<close>\<close>

definition locationOf :: "aiSlopIssue \<Rightarrow> string" where
  "locationOf issue = show_nat (i_line issue) @ '':'' @ show_nat (i_column issue)"

text \<open>
  The \<^verbatim>\<open>Map<string, ConsolidatedIssue>\<close> is an association list in insertion
  order with distinct keys.  \<open>pushLocation\<close> is
  \<^verbatim>\<open>issueMap.get(key)!.location.push(loc)\<close>.
\<close>

fun pushLocation ::
    "string \<Rightarrow> string \<Rightarrow> (string \<times> consolidatedIssue) list \<Rightarrow> (string \<times> consolidatedIssue) list" where
  "pushLocation key loc [] = []"
| "pushLocation key loc ((k, c) # m) =
     (if k = key then (k, c\<lparr>c_location := c_location c @ [loc]\<rparr>) # m
      else (k, c) # pushLocation key loc m)"

text \<open>The body of \<^verbatim>\<open>for (const issue of this.issues)\<close>.\<close>

definition consolidateStep ::
    "(string \<times> consolidatedIssue) list \<Rightarrow> aiSlopIssue \<Rightarrow> (string \<times> consolidatedIssue) list" where
  "consolidateStep issueMap issue =
     (let key = issueKey issue in
      if key \<in> fst ` set issueMap then pushLocation key (locationOf issue) issueMap
      else issueMap @
             [(key, \<lparr> c_type = i_type issue,
                      c_file = i_file issue,
                      c_code = i_code issue,
                      c_message = i_message issue,
                      c_severity = i_severity issue,
                      c_location = [locationOf issue] \<rparr>)])"

text \<open>\<^verbatim>\<open>consolidateIssues()\<close> on the accumulated \<^verbatim>\<open>this.issues\<close>.\<close>

definition consolidateIssues :: "aiSlopIssue list \<Rightarrow> consolidatedIssue list" where
  "consolidateIssues issues = map snd (foldl consolidateStep [] issues)"

subsection \<open>Score calculator\<close>

text \<open>
  A value of the host language as the arithmetic of the score sees it: a
  number, or a text (the operator \<^verbatim>\<open>+\<close> concatenates as soon as one operand
  is not a number).
\<close>

datatype jsval = Num nat | Text string

fun js_text :: "jsval \<Rightarrow> string" where
  "js_text (Num n) = show_nat n"
| "js_text (Text t) = t"

fun js_add :: "jsval \<Rightarrow> jsval \<Rightarrow> jsval" where
  "js_add (Num a) (Num b) = Num (a + b)"
| "js_add a b = Text (js_text a @ js_text b)"

text \<open>The own properties of the object literal \<^verbatim>\<open>weights\<close>.\<close>

definition weights :: "(string \<times> nat) list" where
  "weights =
    [(''hallucinated_react_import'', 30),
     (''hallucinated_next_import'', 30),
     (''any_type_usage'', 15),
     (''unsafe_type_assertion'', 12),
     (''unsafe_double_type_assertion'', 12),
     (''overconfident_comment'', 10),
     (''hedging_uncertainty_comment'', 10),
     (''todo_implementation_placeholder'', 12),
     (''assumption_comment'', 11),
     (''redundant_self_explanatory_comment'', 8),
     (''excessive_boilerplate_comment'', 6),
     (''debug_log_with_comment'', 5),
     (''unnecessary_iife_wrapper'', 7),
     (''vibe_coded_ternary_abuse'', 6)]"

text \<open>
  \<^verbatim>\<open>weights\<close> is an object literal, so \<^verbatim>\<open>weights[name]\<close> also finds the
  properties every object inherits from \<^verbatim>\<open>Object.prototype\<close>.  Each of them
  is a function or an object; the table gives the text it becomes as an
  operand of \<^verbatim>\<open>+\<close>.
\<close>

definition nativeFunction :: "string \<Rightarrow> string" where
  "nativeFunction name = ''function '' @ name @ ''() { [native code] }''"

definition objectPrototype :: "(string \<times> string) list" where
  "objectPrototype =
    [(''constructor'', nativeFunction ''Object''),
     (''__defineGetter__'', nativeFunction ''__defineGetter__''),
     (''__defineSetter__'', nativeFunction ''__defineSetter__''),
     (''hasOwnProperty'', nativeFunction ''hasOwnProperty''),
     (''__lookupGetter__'', nativeFunction ''__lookupGetter__''),
     (''__lookupSetter__'', nativeFunction ''__lookupSetter__''),
     (''isPrototypeOf'', nativeFunction ''isPrototypeOf''),
     (''propertyIsEnumerable'', nativeFunction ''propertyIsEnumerable''),
     (''toString'', nativeFunction ''toString''),
     (''valueOf'', nativeFunction ''valueOf''),
     (''__proto__'', ''[object Object]''),
     (''toLocaleString'', nativeFunction ''toLocaleString'')]"

text \<open>\<^verbatim>\<open>weights[i.type] || 3\<close>\<close>

definition weightOf :: "string \<Rightarrow> jsval" where
  "weightOf ty =
     (case map_of weights ty of
        Some w \<Rightarrow> if w = 0 then Num 3 else Num w
      | None \<Rightarrow>
          (case map_of objectPrototype ty of
             Some txt \<Rightarrow> Text txt
           | None \<Rightarrow> Num 3))"

text \<open>\<^verbatim>\<open>interface SlopScoreBreakdown\<close>\<close>

record slopScoreBreakdown =
  s_informationUtility :: jsval
  s_informationQuality :: jsval
  s_style :: jsval
  s_total :: jsval

text \<open>The body of \<^verbatim>\<open>for (const i of this.issues)\<close> on \<open>(utility, quality, style)\<close>.\<close>

definition scoreStep :: "jsval \<times> jsval \<times> jsval \<Rightarrow> aiSlopIssue \<Rightarrow> jsval \<times> jsval \<times> jsval" where
  "scoreStep acc i =
     (case acc of (utility, quality, style) \<Rightarrow>
        let w = weightOf (i_type i) in
        if includesStr (i_type i) ''hallucinated'' \<or> includesStr (i_type i) ''todo'' \<or>
           includesStr (i_type i) ''assumption''
        then (utility, js_add quality w, style)
        else if includesStr (i_type i) ''comment'' \<or> includesStr (i_type i) ''redundant'' \<or>
                includesStr (i_type i) ''boilerplate''
        then (js_add utility w, quality, style)
        else (utility, quality, js_add style w))"

text \<open>\<^verbatim>\<open>calculateKarpeSlopScore()\<close> on the accumulated \<^verbatim>\<open>this.issues\<close>.\<close>

definition calculateKarpeSlopScore :: "aiSlopIssue list \<Rightarrow> slopScoreBreakdown" where
  "calculateKarpeSlopScore issues =
     (case foldl scoreStep (Num 0, Num 0, Num 0) issues of
        (utility, quality, style) \<Rightarrow>
          \<lparr> s_informationUtility = utility,
            s_informationQuality = quality,
            s_style = style,
            s_total = js_add (js_add utility quality) style \<rparr>)"

subsection \<open>Configuration\<close>






























section \<open>Notions used in the statements\<close>

text \<open>The least number of characters a match of an expression consumes.\<close>

fun minlen :: "rx \<Rightarrow> nat" where
  "minlen Eps = 0"
| "minlen (Str w) = length w"
| "minlen (Cls neg its) = 1"
| "minlen Dot = 1"
| "minlen WordB = 0"
| "minlen (Seq r1 r2) = minlen r1 + minlen r2"
| "minlen (Alt r1 r2) = min (minlen r1) (minlen r2)"
| "minlen (Star greedy r) = 0"
| "minlen (Grp n r) = minlen r"
| "minlen (Bref n) = 0"

text \<open>The findings of the nested-control pass over a whole file, line by line.\<close>

definition nestedFindings :: "string \<Rightarrow> string list \<Rightarrow> aiSlopIssue list" where
  "nestedFindings filePath lines =
     concat (map (\<lambda>i. analyzeComplexNestedConditionals filePath lines i (i + 1) (lines ! i))
                 [0 ..< length lines])"

text \<open>The findings of one pattern on one line, empty when the scan fails.\<close>

definition patternFindings ::
    "detectionPattern \<Rightarrow> string \<Rightarrow> bool \<Rightarrow> string list \<Rightarrow> nat \<Rightarrow> aiSlopIssue list" where
  "patternFindings p filePath quiet lines i =
     (case scanPattern p filePath quiet lines i of Inl e \<Rightarrow> [] | Inr found \<Rightarrow> found)"

text \<open>
  The rules the acknowledgment stage applies to: the identifier contains
  \<^verbatim>\<open>any\<close> or \<^verbatim>\<open>unsafe\<close>.
\<close>

definition isAnyOrUnsafeRule :: "detectionPattern \<Rightarrow> bool" where
  "isAnyOrUnsafeRule p = (includesStr (p_id p) ''any'' \<or> includesStr (p_id p) ''unsafe'')"

text \<open>The line before line \<open>i\<close>, as \<^verbatim>\<open>analyzeFile\<close> reads it.\<close>

definition prevLineOf :: "string list \<Rightarrow> nat \<Rightarrow> string" where
  "prevLineOf lines i = (if 0 < i then lines ! (i - 1) else [])"

text \<open>
  The function scope the error-handling heuristic bounds around a call:
  the anchor line found by the backward scan and the line on which the brace
  count returns to zero, when both exist.
\<close>

definition functionScope :: "string list \<Rightarrow> nat \<Rightarrow> (nat \<times> nat) option" where
  "functionScope lines fetchLineIndex =
     (case findFunctionStart lines (fetchLineIndex - 20) fetchLineIndex of
        None \<Rightarrow> None
      | Some s \<Rightarrow>
          (case findFunctionEnd lines (Some s) (fetchLineIndex + 20) s 0 False of
             None \<Rightarrow> None
           | Some e \<Rightarrow> Some (s, e)))"



text \<open>The order in which keys are first seen.\<close>

definition firstSeen :: "'a list \<Rightarrow> 'a list" where
  "firstSeen xs = rev (remdups (rev xs))"

text \<open>
  The group of a key: the five fields of the first issue with that key and
  the locations of all issues with that key, in order.
\<close>

definition groupFor :: "string \<Rightarrow> aiSlopIssue list \<Rightarrow> consolidatedIssue" where
  "groupFor k issues =
     (let members = filter (\<lambda>i. issueKey i = k) issues in
      \<lparr> c_type = i_type (hd members),
        c_file = i_file (hd members),
        c_code = i_code (hd members),
        c_message = i_message (hd members),
        c_severity = i_severity (hd members),
        c_location = map locationOf members \<rparr>)"

text \<open>The weight of a rule as a number: the table's entry, or 3.\<close>

definition numericWeight :: "string \<Rightarrow> nat" where
  "numericWeight ty =
     (case map_of weights ty of Some w \<Rightarrow> if w = 0 then 3 else w | None \<Rightarrow> 3)"

datatype axis = Utility | Quality | Style

definition axisOf :: "string \<Rightarrow> axis" where
  "axisOf ty =
     (if includesStr ty ''hallucinated'' \<or> includesStr ty ''todo'' \<or> includesStr ty ''assumption''
      then Quality
      else if includesStr ty ''comment'' \<or> includesStr ty ''redundant'' \<or>
              includesStr ty ''boilerplate''
      then Utility
      else Style)"

definition axisSum :: "axis \<Rightarrow> aiSlopIssue list \<Rightarrow> nat" where
  "axisSum a issues =
     sum_list (map (\<lambda>i. numericWeight (i_type i)) (filter (\<lambda>i. axisOf (i_type i) = a) issues))"

text \<open>
  A rule identifier that is not in the weight table but names a property
  that every object inherits.
\<close>

definition inheritedName :: "string \<Rightarrow> bool" where
  "inheritedName ty = (map_of weights ty = None \<and> map_of objectPrototype ty \<noteq> None)"


text \<open>
  A pattern that the loop over the patterns passes over for a file: it is
  test-exempt in a test file, mock-exempt in a mock file, or carries the
  identifier of the nested-control pass.
\<close>

definition categorySkipped :: "detectionPattern \<Rightarrow> string \<Rightarrow> bool" where
  "categorySkipped p f =
     ((p_skipTests p \<and> isTestFile f) \<or> (p_skipMocks p \<and> isMockFile f)
      \<or> p_id p = ''complex_nested_conditionals'')"

text \<open>The findings for one line: every pattern in registry order, then the nested-control pass.\<close>

definition lineFindings ::
    "detectionPattern list \<Rightarrow> string \<Rightarrow> bool \<Rightarrow> string list \<Rightarrow> nat \<Rightarrow> aiSlopIssue list" where
  "lineFindings ps f q lines i =
     concat (map (\<lambda>p. patternFindings p f q lines i) ps)
     @ analyzeComplexNestedConditionals f lines i (i + 1) (lines ! i)"


definition deepNestingIssue :: "string \<Rightarrow> nat \<Rightarrow> string \<Rightarrow> aiSlopIssue" where
  "deepNestingIssue filePath lineNumber line =
     \<lparr> i_type = ''complex_nested_conditionals'', i_file = filePath, i_line = lineNumber,
       i_column = length (takeWhile isSpace line) + 1, i_code = trim line,
       i_message = ''Highly indented control structure suggests deep nesting. Consider refactoring for readability.'',
       i_severity = Medium \<rparr>"

section \<open>Properties of the expression matcher\<close>

lemma startsWithCI_length: "startsWithCI ci s w \<Longrightarrow> length w \<le> length s"
  by (induction ci s w rule: startsWithCI.induct) auto

text \<open>Every way a match can end has consumed at least \<open>minlen r\<close> characters.\<close>

lemma ms_consumes:
  "st' \<in> set (ms ci r st) \<Longrightarrow> length (ahead st') + minlen r \<le> length (ahead st)"
proof (induction ci r st arbitrary: st' rule: ms.induct)
  case (1 ci st)
  then show ?case by (simp add: ms.simps(1))
next
  case (2 ci w b s cs)
  then show ?case
    by (auto simp: ms.simps(2) dest: startsWithCI_length split: if_splits)
next
  case (3 ci neg its b s cs)
  then show ?case by (auto simp: ms.simps(3) split: list.splits if_splits)
next
  case (4 ci b s cs)
  then show ?case by (auto simp: ms.simps(4) split: list.splits if_splits)
next
  case (5 ci b s cs)
  then show ?case by (auto simp: ms.simps(5) split: if_splits)
next
  case (6 ci r1 r2 st)
  from "6.prems" obtain mid
    where mid: "mid \<in> set (ms ci r1 st)" and st': "st' \<in> set (ms ci r2 mid)"
    by (auto simp: ms.simps(6))
  from "6.IH"(1) [OF mid] "6.IH"(2) [OF mid st'] show ?case by simp
next
  case (7 ci r1 r2 st)
  then show ?case by (fastforce simp: ms.simps(7))
next
  case (8 ci greedy r st)
  have "st' = st \<or> (\<exists>mid \<in> set (ms ci r st). length (ahead mid) < length (ahead st)
            \<and> st' \<in> set (ms ci (Star greedy r) mid))"
    using "8.prems"
    by (auto simp: ms.simps(8) [of ci greedy r st] Let_def split: if_splits)
  then show ?case
  proof
    assume "st' = st"
    then show ?thesis by simp
  next
    assume "\<exists>mid \<in> set (ms ci r st). length (ahead mid) < length (ahead st)
            \<and> st' \<in> set (ms ci (Star greedy r) mid)"
    then obtain mid where m: "mid \<in> set (ms ci r st)"
        "length (ahead mid) < length (ahead st)"
        "st' \<in> set (ms ci (Star greedy r) mid)" by blast
    from "8.IH"(2) [OF m(1) m(2) m(3)] m(2) show ?thesis by simp
  qed
next
  case (9 ci n r b s cs)
  then show ?case by (fastforce simp: ms.simps(9))
next
  case (10 ci n b s cs)
  then show ?case by (auto simp: ms.simps(10) split: option.splits if_splits)
qed

lemma exec_at_consumes:
  "exec_at ci r b s = Some (idx, mtext, b', s') \<Longrightarrow>
     length s' + minlen r \<le> length s \<and> minlen r \<le> length mtext"
proof (induction ci r b s rule: exec_at.induct)
  case (1 ci r b)
  then obtain cs' where "(b', s', cs') \<in> set (ms ci r (b, [], []))" and "mtext = []"
    by (auto split: list.splits)
  from ms_consumes [OF this(1)] this(2) show ?case by simp
next
  case (2 ci r b x xs)
  show ?case
  proof (cases "ms ci r (b, x # xs, [])")
    case Nil
    with 2 show ?thesis by auto
  next
    case (Cons st rest)
    with "2.prems" obtain cs' where st: "st = (b', s', cs')"
      and mt: "mtext = take (length (x # xs) - length s') (x # xs)"
      by (cases st) auto
    have "(b', s', cs') \<in> set (ms ci r (b, x # xs, []))" using Cons st by simp
    from ms_consumes [OF this] mt show ?thesis by simp
  qed
qed

text \<open>
  The \<^verbatim>\<open>exec\<close> loop of an expression that cannot match the empty text
  always ends.
\<close>

lemma execAll_total: "0 < minlen r \<Longrightarrow> \<exists>found. execAll ci r b s = Some found"
proof (induction ci r b s rule: execAll.induct)
  case (1 ci r b s)
  show ?case
  proof (cases "exec_at ci r b s")
    case None
    then show ?thesis by (simp add: execAll.simps [of ci r b s])
  next
    case (Some res)
    obtain idx mt b' s' where res: "res = (idx, mt, b', s')" by (cases res) auto
    have ex: "exec_at ci r b s = Some (idx, mt, b', s')" using Some res by simp
    from exec_at_consumes [OF ex] "1.prems"
    have ok: "mt \<noteq> []" "length s' < length s" by auto
    from "1.IH" [OF ex refl refl refl] ok "1.prems"
    obtain found where "execAll ci r b' s' = Some found" by auto
    with Some res ok show ?thesis by (simp add: execAll.simps [of ci r b s])
  qed
qed

text \<open>No expression of the built-in table matches the empty text.\<close>

lemma builtin_minlen: "list_all (\<lambda>p. 0 < minlen (p_pattern p)) detectionPatterns"
  by code_simp

section \<open>Score calculator\<close>

lemma weightOf_numeric: "\<not> inheritedName ty \<Longrightarrow> weightOf ty = Num (numericWeight ty)"
  by (auto simp: weightOf_def numericWeight_def inheritedName_def split: option.splits)

lemma scoreStep_numeric:
  "\<not> inheritedName (i_type i) \<Longrightarrow>
   scoreStep (Num u, Num q, Num s) i =
     (Num (u + (if axisOf (i_type i) = Utility then numericWeight (i_type i) else 0)),
      Num (q + (if axisOf (i_type i) = Quality then numericWeight (i_type i) else 0)),
      Num (s + (if axisOf (i_type i) = Style then numericWeight (i_type i) else 0)))"
  by (simp add: scoreStep_def weightOf_numeric axisOf_def)

lemma foldl_scoreStep_numeric:
  "\<forall>i \<in> set issues. \<not> inheritedName (i_type i) \<Longrightarrow>
   foldl scoreStep (Num u, Num q, Num s) issues =
     (Num (u + axisSum Utility issues), Num (q + axisSum Quality issues),
      Num (s + axisSum Style issues))"
proof (induction issues arbitrary: u q s)
  case Nil
  then show ?case by (simp add: axisSum_def)
next
  case (Cons i issues)
  then show ?case
    by (simp add: scoreStep_numeric axisSum_def)
qed

text \<open>
  Where no rule identifier is an inherited property name, the breakdown is
  numeric, every issue adds its weight to the axis of its identifier, and the
  total is the sum of the three axes.
\<close>

lemma score_numeric:
  assumes "\<forall>i \<in> set issues. \<not> inheritedName (i_type i)"
  shows "calculateKarpeSlopScore issues =
     \<lparr> s_informationUtility = Num (axisSum Utility issues),
       s_informationQuality = Num (axisSum Quality issues),
       s_style = Num (axisSum Style issues),
       s_total = Num (axisSum Utility issues + axisSum Quality issues + axisSum Style issues) \<rparr>"
  using foldl_scoreStep_numeric [OF assms, of 0 0 0]
  by (simp add: calculateKarpeSlopScore_def)

lemma unlisted_weight_is_three: "map_of weights ty = None \<Longrightarrow> numericWeight ty = 3"
  by (simp add: numericWeight_def)

text \<open>
  C4.  The claim: every issue adds its rule's weight, 3 when the rule is
  unlisted, to one axis, and the total is the sum of the axes.  The rule
  identifier \<^verbatim>\<open>constructor\<close> (a custom rule may carry it) is not in the
  weight table, yet \<^verbatim>\<open>weights[i.type]\<close> finds the inherited property of that
  name: the issue does not add 3, the style axis becomes a text and so does
  the total.
\<close>

theorem score_unlisted_inherited_name:
  "map_of weights ''constructor'' = None \<and>
   calculateKarpeSlopScore
     [\<lparr> i_type = ''constructor'', i_file = ''src/a.ts'', i_line = 1, i_column = 1,
        i_code = ''new'', i_message = ''m (m)'', i_severity = Low \<rparr>]
   = \<lparr> s_informationUtility = Num 0, s_informationQuality = Num 0,
       s_style = Text ''0function Object() { [native code] }'',
       s_total = Text ''00function Object() { [native code] }'' \<rparr>"
  by code_simp

section \<open>Issue consolidator\<close>

lemma firstSeen_snoc:
  "firstSeen (xs @ [x]) = (if x \<in> set xs then firstSeen xs else firstSeen xs @ [x])"
  by (simp add: firstSeen_def)

lemma set_firstSeen: "set (firstSeen xs) = set xs"
  by (simp add: firstSeen_def)

lemma distinct_firstSeen: "distinct (firstSeen xs)"
  by (simp add: firstSeen_def)

lemma pushLocation_map:
  "distinct ks \<Longrightarrow>
   pushLocation key loc (map (\<lambda>k. (k, g k)) ks) =
     map (\<lambda>k. (k, if k = key then (g k)\<lparr>c_location := c_location (g k) @ [loc]\<rparr> else g k)) ks"
proof (induction ks)
  case Nil
  then show ?case by simp
next
  case (Cons k ks)
  then have "key \<notin> set ks \<Longrightarrow>
      map (\<lambda>k. (k, g k)) ks =
      map (\<lambda>k. (k, if k = key then (g k)\<lparr>c_location := c_location (g k) @ [loc]\<rparr> else g k)) ks"
    by (intro map_cong) auto
  with Cons show ?case by auto
qed

lemma groupFor_snoc_same:
  "issueKey x = k \<Longrightarrow> k \<in> issueKey ` set xs \<Longrightarrow>
   groupFor k (xs @ [x]) =
     (groupFor k xs)\<lparr>c_location := c_location (groupFor k xs) @ [locationOf x]\<rparr>"
proof -
  assume k: "issueKey x = k" and "k \<in> issueKey ` set xs"
  then have "filter (\<lambda>i. issueKey i = k) xs \<noteq> []"
    by (auto simp: filter_empty_conv)
  then show ?thesis using k by (simp add: groupFor_def Let_def)
qed

lemma groupFor_snoc_other:
  "issueKey x \<noteq> k \<Longrightarrow> groupFor k (xs @ [x]) = groupFor k xs"
  by (simp add: groupFor_def)

lemma groupFor_snoc_new:
  "issueKey x \<notin> issueKey ` set xs \<Longrightarrow>
   groupFor (issueKey x) (xs @ [x]) =
     \<lparr> c_type = i_type x, c_file = i_file x, c_code = i_code x, c_message = i_message x,
       c_severity = i_severity x, c_location = [locationOf x] \<rparr>"
proof -
  assume "issueKey x \<notin> issueKey ` set xs"
  then have "\<forall>i \<in> set xs. issueKey i \<noteq> issueKey x"
    by (metis imageI)
  then have "filter (\<lambda>i. issueKey i = issueKey x) xs = []"
    by (simp add: filter_empty_conv)
  then show ?thesis by (simp add: groupFor_def)
qed

lemma consolidate_fold:
  "foldl consolidateStep [] issues =
     map (\<lambda>k. (k, groupFor k issues)) (firstSeen (map issueKey issues))"
proof (induction issues rule: rev_induct)
  case Nil
  then show ?case by (simp add: firstSeen_def)
next
  case (snoc x xs)
  let ?ks = "firstSeen (map issueKey xs)"
  show ?case
  proof (cases "issueKey x \<in> issueKey ` set xs")
    case True
    have "pushLocation (issueKey x) (locationOf x) (map (\<lambda>k. (k, groupFor k xs)) ?ks) =
          map (\<lambda>k. (k, groupFor k (xs @ [x]))) ?ks"
      unfolding pushLocation_map [OF distinct_firstSeen]
      by (intro map_cong refl)
        (use True in \<open>auto simp: set_firstSeen groupFor_snoc_same groupFor_snoc_other\<close>)
    with True snoc show ?thesis
      by (simp add: consolidateStep_def firstSeen_snoc set_firstSeen image_image)
  next
    case False
    have "map (\<lambda>k. (k, groupFor k xs)) ?ks = map (\<lambda>k. (k, groupFor k (xs @ [x]))) ?ks"
    proof (intro map_cong refl)
      fix k assume "k \<in> set ?ks"
      then have "k \<in> issueKey ` set xs" by (simp add: set_firstSeen)
      then have "issueKey x \<noteq> k" using False by metis
      then show "(k, groupFor k xs) = (k, groupFor k (xs @ [x]))"
        by (simp add: groupFor_snoc_other)
    qed
    with False snoc show ?thesis
      by (simp add: consolidateStep_def firstSeen_snoc set_firstSeen image_image
          groupFor_snoc_new)
  qed
qed

text \<open>
  Consolidation groups exactly by the key text: one group per key, in the
  order in which the keys are first seen, each with the locations of all its
  issues in order.
\<close>

lemma consolidate_by_key:
  "consolidateIssues issues = map (\<lambda>k. groupFor k issues) (firstSeen (map issueKey issues))"
  by (simp add: consolidateIssues_def consolidate_fold comp_def)

lemma pushLocation_total:
  "key \<in> fst ` set m \<Longrightarrow>
   sum_list (map (\<lambda>kc. length (c_location (snd kc))) (pushLocation key loc m)) =
     Suc (sum_list (map (\<lambda>kc. length (c_location (snd kc))) m))"
proof (induction m)
  case Nil
  then show ?case by simp
next
  case (Cons kc m)
  obtain k c where kc: "kc = (k, c)" by (cases kc) auto
  show ?case
  proof (cases "k = key")
    case True
    then show ?thesis by (simp add: kc)
  next
    case False
    with Cons.prems kc have "key \<in> fst ` set m" by auto
    from Cons.IH [OF this] False show ?thesis by (simp add: kc)
  qed
qed

lemma consolidate_fold_total:
  "sum_list (map (\<lambda>kc. length (c_location (snd kc))) (foldl consolidateStep [] issues))
     = length issues"
proof (induction issues rule: rev_induct)
  case Nil
  then show ?case by simp
next
  case (snoc x xs)
  then show ?case
    by (simp add: consolidateStep_def Let_def pushLocation_total)
qed

text \<open>No occurrence is dropped or duplicated.\<close>

lemma consolidate_total:
  "sum_list (map (\<lambda>c. length (c_location c)) (consolidateIssues issues)) = length issues"
  using consolidate_fold_total [of issues]
  by (simp add: consolidateIssues_def comp_def)

text \<open>
  The two issues of the theorem below are what a scan reports for a file
  \<^verbatim>\<open>/p/a.ts\<close> with the line \<^verbatim>\<open>rgb(1.ts|rgb(2)\<close> and a file
  \<^verbatim>\<open>/p/a.ts|rgb(1.ts\<close> with the line \<^verbatim>\<open>rgb(2)\<close>.
\<close>

lemma colliding_issues_reported:
  "analyzeFile detectionPatterns ''/p/a.ts'' False ''rgb(1.ts|rgb(2)''
     = Inr [mkIssue pat_magic_css_value ''/p/a.ts'' 1 (0, ''rgb(1.ts|rgb(2)'')]
   \<and> analyzeFile detectionPatterns ''/p/a.ts|rgb(1.ts'' False ''rgb(2)''
     = Inr [mkIssue pat_magic_css_value ''/p/a.ts|rgb(1.ts'' 1 (0, ''rgb(2)'')]"
  by code_simp

text \<open>
  C3.  The claim: two issues land in the same consolidated issue if and only
  if they agree on rule id, file, matched text, message and severity.  The
  key is the five fields joined by \<^verbatim>\<open>|\<close>, which the fields themselves may
  contain: the two issues below differ in file and in matched text, have the
  same key, and are consolidated into one entry with two locations.
\<close>

theorem consolidate_merges_distinct_issues:
  "i_file (mkIssue pat_magic_css_value ''/p/a.ts'' 1 (0, ''rgb(1.ts|rgb(2)''))
     \<noteq> i_file (mkIssue pat_magic_css_value ''/p/a.ts|rgb(1.ts'' 1 (0, ''rgb(2)''))
   \<and> i_code (mkIssue pat_magic_css_value ''/p/a.ts'' 1 (0, ''rgb(1.ts|rgb(2)''))
     \<noteq> i_code (mkIssue pat_magic_css_value ''/p/a.ts|rgb(1.ts'' 1 (0, ''rgb(2)''))
   \<and> map (\<lambda>c. (c_file c, c_code c, c_location c))
         (consolidateIssues
            [mkIssue pat_magic_css_value ''/p/a.ts'' 1 (0, ''rgb(1.ts|rgb(2)''),
             mkIssue pat_magic_css_value ''/p/a.ts|rgb(1.ts'' 1 (0, ''rgb(2)'')])
     = [(''/p/a.ts'', ''rgb(1.ts|rgb(2)'', [''1:1'', ''1:1''])]"
  by code_simp

section \<open>Scanning a file\<close>

lemma isFetch_total:
  "i < length lines \<Longrightarrow> \<exists>b. isFetchCallProperlyHandled lines i k = Inr b"
  by (auto simp: isFetchCallProperlyHandled_def Let_def split: option.splits)

lemma isFetch_index_unused:
  "isFetchCallProperlyHandled lines i k = isFetchCallProperlyHandled lines i 0"
  by (simp add: isFetchCallProperlyHandled_def)

lemma isInTry_total:
  "i < length lines \<Longrightarrow> isInTryCatchBlock lines i = Inr (tryCatchScan lines i 0 None)"
  by (simp add: isInTryCatchBlock_def)

lemma skipAfterWhitelist_total:
  "i < length lines \<Longrightarrow> \<exists>b. skipAfterWhitelist p f q lines i k = Inr b"
proof -
  assume i: "i < length lines"
  obtain b where b: "isFetchCallProperlyHandled lines i k = Inr b"
    using isFetch_total [OF i] by blast
  show ?thesis
    by (auto simp: skipAfterWhitelist_def b isInTry_total [OF i])
qed

lemma skipMatch_total:
  "i < length lines \<Longrightarrow> \<exists>b. skipMatch p f q lines i k = Inr b"
  using skipAfterWhitelist_total [of i lines p f q k]
  by (auto simp: skipMatch_def)

lemma skipMatch_index_unused:
  "skipMatch p f q lines i k = skipMatch p f q lines i 0"
  by (simp add: skipMatch_def skipAfterWhitelist_def isFetch_index_unused [of lines i k])

lemma matchLoop_const:
  "skipMatch p f q lines i 0 = Inr b \<Longrightarrow>
   matchLoop p f q lines i found = Inr (if b then [] else map (mkIssue p f (i + 1)) found)"
proof (induction found)
  case Nil
  then show ?case by simp
next
  case (Cons m found)
  have "skipMatch p f q lines i (fst m) = Inr b"
    using Cons.prems skipMatch_index_unused [of p f q lines i "fst m"] by simp
  with Cons show ?case by simp
qed

lemma scanPattern_char:
  assumes "execAll (p_ci p) (p_pattern p) [] (lines ! i) = Some found"
      and "skipMatch p f q lines i 0 = Inr b"
  shows "scanPattern p f q lines i =
           Inr (if categorySkipped p f \<or> b then [] else map (mkIssue p f (i + 1)) found)"
  using assms by (auto simp: scanPattern_def categorySkipped_def matchLoop_const)

lemma scanPattern_total:
  assumes "i < length lines" and "0 < minlen (p_pattern p)"
  shows "scanPattern p f q lines i = Inr (patternFindings p f q lines i)"
proof -
  obtain found where found: "execAll (p_ci p) (p_pattern p) [] (lines ! i) = Some found"
    using execAll_total [OF assms(2)] by blast
  obtain b where b: "skipMatch p f q lines i 0 = Inr b"
    using skipMatch_total [OF assms(1)] by blast
  show ?thesis
    by (simp add: patternFindings_def scanPattern_char [OF found b])
qed

lemma scanPatterns_total:
  assumes "i < length lines" and "\<forall>p \<in> set ps. 0 < minlen (p_pattern p)"
  shows "scanPatterns ps f q lines i = Inr (concat (map (\<lambda>p. patternFindings p f q lines i) ps))"
  using assms(2)
proof (induction ps)
  case Nil
  then show ?case by simp
next
  case (Cons p ps)
  then show ?case by (simp add: scanPattern_total [OF assms(1)])
qed

lemma analyzeLine_total:
  assumes "i < length lines" and "\<forall>p \<in> set ps. 0 < minlen (p_pattern p)"
  shows "analyzeLine ps f q lines i = Inr (lineFindings ps f q lines i)"
  by (simp add: analyzeLine_def lineFindings_def scanPatterns_total [OF assms])

lemma analyzeLines_total:
  assumes "\<forall>p \<in> set ps. 0 < minlen (p_pattern p)"
  shows "\<forall>i \<in> set idxs. i < length lines \<Longrightarrow>
         analyzeLines ps f q lines idxs = Inr (concat (map (lineFindings ps f q lines) idxs))"
proof (induction idxs)
  case Nil
  then show ?case by simp
next
  case (Cons i idxs)
  then show ?case by (simp add: analyzeLine_total [OF _ assms])
qed

lemma analyzeFile_total:
  assumes "\<forall>p \<in> set ps. 0 < minlen (p_pattern p)"
  shows "analyzeFile ps f q content =
           Inr (concat (map (lineFindings ps f q (split_lines content))
                            [0 ..< length (split_lines content)]))"
  by (simp add: analyzeFile_def Let_def analyzeLines_total [OF assms])

lemma builtin_nonempty: "\<forall>p \<in> set detectionPatterns. 0 < minlen (p_pattern p)"
  using builtin_minlen by (simp add: list_all_iff)










lemma whitelistedLate_quiet:
  "isTestFile f \<Longrightarrow> p_id p \<noteq> ''production_console_log'' \<Longrightarrow> whitelistedLate p f True line"
  by (simp add: whitelistedLate_def Let_def)

lemma skipMatch_quiet_test:
  assumes "i < length lines" "isTestFile f" "p_id p \<noteq> ''production_console_log''"
  shows "skipMatch p f True lines i k = Inr True"
proof -
  obtain b where b: "isFetchCallProperlyHandled lines i k = Inr b"
    using isFetch_total [OF assms(1)] by blast
  show ?thesis
    using assms(3)
    by (simp add: skipMatch_def skipAfterWhitelist_def b whitelistedLate_quiet [OF assms(2,3)])
qed

lemma patternFindings_quiet_test:
  assumes "i < length lines" "isTestFile f"
      and "p_skipTests p \<or> p_id p \<noteq> ''production_console_log''"
  shows "patternFindings p f True lines i = []"
proof (cases "p_skipTests p")
  case True
  with assms(2) show ?thesis by (simp add: patternFindings_def scanPattern_def)
next
  case False
  with assms(3) have ne: "p_id p \<noteq> ''production_console_log''" by simp
  show ?thesis
  proof (cases "execAll (p_ci p) (p_pattern p) [] (lines ! i)")
    case None
    then show ?thesis by (simp add: patternFindings_def scanPattern_def)
  next
    case (Some found)
    from scanPattern_char [OF Some skipMatch_quiet_test [OF assms(1,2) ne]]
    show ?thesis by (simp add: patternFindings_def)
  qed
qed

lemma builtin_console_rule_exempt:
  "\<forall>p \<in> set detectionPatterns. p_skipTests p \<or> p_id p \<noteq> ''production_console_log''"
  by code_simp

lemma lineFindings_quiet_test:
  assumes "i < length lines" "isTestFile f"
  shows "lineFindings detectionPatterns f True lines i
           = analyzeComplexNestedConditionals f lines i (i + 1) (lines ! i)"
proof -
  have "concat (map (\<lambda>p. patternFindings p f True lines i) detectionPatterns) = []"
    using builtin_console_rule_exempt
    by (auto simp: patternFindings_quiet_test [OF assms])
  then show ?thesis by (simp add: lineFindings_def)
qed

lemma quiet_test_file_general:
  assumes "isTestFile f"
  shows "analyzeFile detectionPatterns f True content = Inr (nestedFindings f (split_lines content))"
proof -
  have "map (lineFindings detectionPatterns f True (split_lines content))
            [0 ..< length (split_lines content)]
        = map (\<lambda>i. analyzeComplexNestedConditionals f (split_lines content) i (i + 1)
                      (split_lines content ! i))
            [0 ..< length (split_lines content)]"
    by (rule map_cong) (auto simp: lineFindings_quiet_test [OF _ assms])
  then show ?thesis
    unfolding analyzeFile_total [OF builtin_nonempty] nestedFindings_def by (simp only:)
qed

text \<open>
  C1, as amended.  For every file categorized as a test file and scanned in
  quiet mode, the issues of every rule of the table are suppressed, those of
  the production-logging rule included (the rule is test-exempt and is passed
  over before the quiet-mode check is reached): only the findings of the
  nested-control pass are reported.
\<close>

theorem quiet_test_file_only_nested:
  "isTestFile filePath \<Longrightarrow>
   analyzeFile detectionPatterns filePath True content
     = Inr (nestedFindings filePath (split_lines content))"
  by (rule quiet_test_file_general)

lemma test_path: "isTestFile ''src/__tests__/a.ts''"
  by code_simp

lemma warn_line_nested: "nestedFindings ''src/__tests__/a.ts'' (split_lines ''console.warn(1);'') = []"
  by code_simp

text \<open>
  C1 as stated fails: in a test file scanned in quiet mode the
  production-logging rule matches the line \<^verbatim>\<open>console.warn(1);\<close>, and nothing
  is reported.
\<close>

theorem quiet_test_file_drops_production_log:
  "isTestFile ''src/__tests__/a.ts'' \<and>
   execAll (p_ci pat_production_console_log) (p_pattern pat_production_console_log) []
     ''console.warn(1);'' = Some [(0, ''console.warn('')] \<and>
   analyzeFile detectionPatterns ''src/__tests__/a.ts'' True ''console.warn(1);'' = Inr []"
proof -
  have a: "execAll (p_ci pat_production_console_log) (p_pattern pat_production_console_log) []
     ''console.warn(1);'' = Some [(0, ''console.warn('')]"
    by code_simp
  from quiet_test_file_general [OF test_path, of "''console.warn(1);''"] warn_line_nested a test_path
  show ?thesis by simp
qed


theorem quiet_test_file_only_nested_witness:
  "isTestFile ''src/util.test.ts'' \<and>
   analyzeFile detectionPatterns ''src/util.test.ts'' True
     ''                if (a) { console.log(1); }''
   = Inr [deepNestingIssue ''src/util.test.ts'' 1 ''                if (a) { console.log(1); }'']"
proof -
  have a: "isTestFile ''src/util.test.ts''" by code_simp
  have b: "nestedFindings ''src/util.test.ts''
             (split_lines ''                if (a) { console.log(1); }'')
           = [deepNestingIssue ''src/util.test.ts'' 1 ''                if (a) { console.log(1); }'']"
    by code_simp
  from quiet_test_file_only_nested [OF a, of "''                if (a) { console.log(1); }''"] a b
  show ?thesis by simp
qed



section \<open>Acknowledgment markers\<close>

lemma family_any: "p_id p = ''any_type_usage'' \<Longrightarrow> isAnyOrUnsafeRule p"
  by (simp add: isAnyOrUnsafeRule_def)

lemma family_param: "p_id p = ''function_param_any_type'' \<Longrightarrow> isAnyOrUnsafeRule p"
  by (simp add: isAnyOrUnsafeRule_def)

lemma whitelistedEarly_family:
  "whitelistedEarly p f lines i \<Longrightarrow> isAnyOrUnsafeRule p"
proof -
  assume w: "whitelistedEarly p f lines i"
  show ?thesis
  proof (rule ccontr)
    assume n: "\<not> isAnyOrUnsafeRule p"
    then have a: "\<not> includesStr (p_id p) ''any''" "\<not> includesStr (p_id p) ''unsafe''"
      by (simp_all add: isAnyOrUnsafeRule_def)
    from n have b: "p_id p \<noteq> ''any_type_usage''" "p_id p \<noteq> ''function_param_any_type''"
      using family_any family_param by blast+
    from w show False
      by (simp add: whitelistedEarly_def Let_def a b)
  qed
qed

lemma whitelistedEarly_ack:
  "isAnyOrUnsafeRule p \<Longrightarrow> acknowledged (lines ! i) (prevLineOf lines i) \<Longrightarrow>
     whitelistedEarly p f lines i"
  by (simp add: whitelistedEarly_def Let_def isAnyOrUnsafeRule_def prevLineOf_def)

text \<open>
  C7, as amended.  For a rule whose identifier contains \<^verbatim>\<open>any\<close> or
  \<^verbatim>\<open>unsafe\<close>, the text \<^verbatim>\<open>eslint-disable\<close>, \<^verbatim>\<open>@ts-expect-error\<close> or
  \<^verbatim>\<open>@ts-ignore\<close> on the line, or \<^verbatim>\<open>eslint-disable-next-line\<close> or
  \<^verbatim>\<open>@ts-expect-error\<close> on the line before it, suppresses every issue of the
  rule for that line.  It suppresses no others: a rule outside that family
  is never rejected by the stages that read the markers, and each of its
  matches on the line is reported unless the file category or a later stage
  rejects it.
\<close>

theorem acknowledgment_scope:
  assumes "i < length lines"
      and "execAll (p_ci p) (p_pattern p) [] (lines ! i) = Some found"
  shows "(isAnyOrUnsafeRule p \<and> acknowledged (lines ! i) (prevLineOf lines i)
            \<longrightarrow> scanPattern p filePath quiet lines i = Inr [])
       \<and> (\<not> isAnyOrUnsafeRule p \<and> \<not> categorySkipped p filePath
            \<and> skipAfterWhitelist p filePath quiet lines i 0 = Inr False
            \<longrightarrow> scanPattern p filePath quiet lines i
                  = Inr (map (mkIssue p filePath (i + 1)) found))"
proof (intro conjI impI)
  assume "isAnyOrUnsafeRule p \<and> acknowledged (lines ! i) (prevLineOf lines i)"
  then have "skipMatch p filePath quiet lines i 0 = Inr True"
    by (simp add: skipMatch_def whitelistedEarly_ack)
  from scanPattern_char [OF assms(2) this] show "scanPattern p filePath quiet lines i = Inr []"
    by simp
next
  assume h: "\<not> isAnyOrUnsafeRule p \<and> \<not> categorySkipped p filePath
            \<and> skipAfterWhitelist p filePath quiet lines i 0 = Inr False"
  then have "\<not> whitelistedEarly p filePath lines i"
    using whitelistedEarly_family by blast
  with h have "skipMatch p filePath quiet lines i 0 = Inr False"
    by (simp add: skipMatch_def)
  from scanPattern_char [OF assms(2) this] h
  show "scanPattern p filePath quiet lines i = Inr (map (mkIssue p filePath (i + 1)) found)"
    by simp
qed

text \<open>
  C7 as stated fails: \<^verbatim>\<open>// @ts-ignore\<close>, a suppression comment of the type
  system, on the line directly above a permissive-type usage does not
  suppress the issue of that usage.
\<close>

theorem ts_ignore_above_does_not_suppress:
  "isAnyOrUnsafeRule pat_any_type_usage \<and>
   includesStr ''// @ts-ignore'' ''@ts-ignore'' \<and>
   scanPattern pat_any_type_usage ''src/a.ts'' False [''// @ts-ignore'', ''const x: any = 1;''] 1
     = Inr [mkIssue pat_any_type_usage ''src/a.ts'' 2 (7, '': any'')]"
  by code_simp

theorem acknowledgment_scope_witness:
  "scanPattern pat_any_type_usage ''src/a.ts'' False [''const x: any = 1; // TODO eslint-disable''] 0
     = Inr [] \<and>
   scanPattern pat_todo_comment ''src/a.ts'' False [''const x: any = 1; // TODO eslint-disable''] 0
     = Inr [mkIssue pat_todo_comment ''src/a.ts'' 1 (21, ''TODO'')]"
proof -
  let ?L = "[''const x: any = 1; // TODO eslint-disable'']"
  have i: "0 < length ?L" by simp
  have e1: "execAll (p_ci pat_any_type_usage) (p_pattern pat_any_type_usage) [] (?L ! 0)
              = Some [(7, '': any'')]" by code_simp
  have e2: "execAll (p_ci pat_todo_comment) (p_pattern pat_todo_comment) [] (?L ! 0)
              = Some [(21, ''TODO'')]" by code_simp
  have h1: "isAnyOrUnsafeRule pat_any_type_usage \<and> acknowledged (?L ! 0) (prevLineOf ?L 0)"
    by code_simp
  have h2: "\<not> isAnyOrUnsafeRule pat_todo_comment \<and> \<not> categorySkipped pat_todo_comment ''src/a.ts''
            \<and> skipAfterWhitelist pat_todo_comment ''src/a.ts'' False ?L 0 0 = Inr False"
    by code_simp
  from acknowledgment_scope [OF i e1, of "''src/a.ts''" False] h1
       acknowledgment_scope [OF i e2, of "''src/a.ts''" False] h2
  show ?thesis by simp
qed


section \<open>Nested-control pass\<close>




section \<open>Fetch/call error-handling heuristic\<close>

lemma findFunctionStart_range:
  "findFunctionStart lines lo i = Some s \<Longrightarrow> lo \<le> i \<Longrightarrow> lo \<le> s \<and> s \<le> i"
proof (induction lines lo i rule: findFunctionStart.induct)
  case (1 lines lo i)
  show ?case
  proof (cases "functionStartAt lines i")
    case True
    with "1.prems" show ?thesis by (simp add: findFunctionStart.simps [of lines lo i])
  next
    case False
    show ?thesis
    proof (cases "lo < i")
      case True
      with False "1.prems" have "findFunctionStart lines lo (i - 1) = Some s"
        by (simp add: findFunctionStart.simps [of lines lo i])
      moreover have "lo \<le> i - 1" using True by simp
      ultimately have "lo \<le> s \<and> s \<le> i - 1" using "1.IH" [OF False True] by blast
      then show ?thesis by arith
    next
      case nlt: False
      with False "1.prems" show ?thesis by (simp add: findFunctionStart.simps [of lines lo i])
    qed
  qed
qed

lemma findFunctionEnd_range:
  "findFunctionEnd lines fs lim i bc inF = Some e \<Longrightarrow> i \<le> e \<and> e < lim \<and> e < length lines"
proof (induction lines fs lim i bc inF rule: findFunctionEnd.induct)
  case (1 lines fs lim i bc inF)
  show ?case
  proof (cases "i < length lines \<and> i < lim")
    case False
    with "1.prems" show ?thesis by (simp add: findFunctionEnd.simps [of lines fs lim i bc inF])
  next
    case True
    obtain bc' inF' ended where sb: "scanBraces (fs = Some i) (lines ! i) bc inF = (bc', inF', ended)"
      by (cases "scanBraces (fs = Some i) (lines ! i) bc inF") auto
    show ?thesis
    proof (cases ended)
      case True
      with \<open>i < length lines \<and> i < lim\<close> sb "1.prems" show ?thesis
        by (simp add: findFunctionEnd.simps [of lines fs lim i bc inF])
    next
      case False
      with True sb "1.prems" have "findFunctionEnd lines fs lim (i + 1) bc' inF' = Some e"
        by (simp add: findFunctionEnd.simps [of lines fs lim i bc inF])
      from "1.IH" [OF True sb [symmetric] refl False this] show ?thesis by simp
    qed
  qed
qed

lemma chainHasCatch_found:
  "chainHasCatch lines lim i \<Longrightarrow> \<exists>k. i \<le> k \<and> k < lim \<and> includesStr (lines ! k) ''.catch(''"
proof (induction lines lim i rule: chainHasCatch.induct)
  case (1 lines lim i)
  show ?case
  proof (cases "i < lim")
    case False
    with "1.prems" show ?thesis by (simp add: chainHasCatch.simps [of lines lim i])
  next
    case True
    show ?thesis
    proof (cases "includesStr (lines ! i) ''.catch(''")
      case True
      with \<open>i < lim\<close> show ?thesis by auto
    next
      case False
      show ?thesis
      proof (cases "includesStr (lines ! i) '';'' \<and> \<not> endsWith (trim (lines ! i)) [CHR 0x5C]
                   \<and> \<not> endsWith (trim (lines ! i)) '',''")
        case stop: True
        with True False "1.prems" show ?thesis
          by (simp add: chainHasCatch.simps [of lines lim i] Let_def)
      next
        case go: False
        with True False "1.prems" have "chainHasCatch lines lim (i + 1)"
          by (auto simp: chainHasCatch.simps [of lines lim i] Let_def)
        from "1.IH" [OF True refl False go this] obtain k
          where "i + 1 \<le> k" "k < lim" "includesStr (lines ! k) ''.catch(''" by blast
        then show ?thesis by (intro exI [of _ k]) simp
      qed
    qed
  qed
qed

lemma nearbyGuardAt_token: "nearbyGuardAt lines k \<Longrightarrow> hasGuardToken (lines ! k)"
  by (auto simp: nearbyGuardAt_def hasGuardToken_def Let_def)

text \<open>
  The verdict of the heuristic in its two cases: with a function scope, a
  line of the scope holding \<^verbatim>\<open>.catch(\<close>, \<^verbatim>\<open>try {\<close> or \<^verbatim>\<open>try{\<close>, or a promise
  chain of the call ending in \<^verbatim>\<open>.catch(\<close>; without one, the window of two
  lines above and below.
\<close>

lemma isFetch_scope:
  assumes "i < length lines" and "functionScope lines i = Some (s, e)"
  shows "isFetchCallProperlyHandled lines i k =
           Inr (list_ex (\<lambda>j. hasGuardToken (lines ! j)) [s ..< e + 1] \<or>
                (includesStr (lines ! i) ''fetch('' \<and>
                 (includesStr (lines ! i) ''.then('' \<or> includesStr (lines ! i) ''.catch('') \<and>
                 chainHasCatch lines (min (length lines) (i + 5)) i))"
  using assms
  by (auto simp: isFetchCallProperlyHandled_def functionScope_def Let_def split: option.splits)

lemma isFetch_noscope:
  assumes "i < length lines" and "functionScope lines i = None"
  shows "isFetchCallProperlyHandled lines i k =
           Inr (list_ex (nearbyGuardAt lines) [i - 2 ..< min (length lines) (i + 3)])"
  using assms
  by (auto simp: isFetchCallProperlyHandled_def functionScope_def Let_def split: option.splits)

lemma functionScope_range:
  assumes "functionScope lines i = Some (s, e)"
  shows "i - 20 \<le> s \<and> s \<le> e \<and> e < i + 20 \<and> e < length lines"
proof -
  from assms have fs: "findFunctionStart lines (i - 20) i = Some s"
    and fe: "findFunctionEnd lines (Some s) (i + 20) s 0 False = Some e"
    by (auto simp: functionScope_def split: option.splits)
  from findFunctionStart_range [OF fs] findFunctionEnd_range [OF fe] show ?thesis by simp
qed

lemma isFetch_no_guard_nearby:
  assumes i: "i < length lines"
      and none: "\<forall>k. i - 20 \<le> k \<and> k < i + 20 \<and> k < length lines \<longrightarrow> \<not> hasGuardToken (lines ! k)"
  shows "isFetchCallProperlyHandled lines i k = Inr False"
proof (cases "functionScope lines i")
  case None
  have "\<not> list_ex (nearbyGuardAt lines) [i - 2 ..< min (length lines) (i + 3)]"
  proof
    assume "list_ex (nearbyGuardAt lines) [i - 2 ..< min (length lines) (i + 3)]"
    then obtain j where j: "i - 2 \<le> j" "j < length lines" "j < i + 3" "nearbyGuardAt lines j"
      by (auto simp: list_ex_iff)
    then have "i - 20 \<le> j \<and> j < i + 20 \<and> j < length lines" by arith
    with none nearbyGuardAt_token [OF j(4)] show False by blast
  qed
  with isFetch_noscope [OF i None] show ?thesis by simp
next
  case (Some se)
  obtain s e where se: "se = (s, e)" by (cases se) auto
  from functionScope_range [OF Some [unfolded se]]
  have r: "i - 20 \<le> s" "s \<le> e" "e < i + 20" "e < length lines" by auto
  have a: "\<not> list_ex (\<lambda>j. hasGuardToken (lines ! j)) [s ..< e + 1]"
  proof
    assume "list_ex (\<lambda>j. hasGuardToken (lines ! j)) [s ..< e + 1]"
    then obtain j where j: "s \<le> j" "j \<le> e" "hasGuardToken (lines ! j)"
      by (auto simp: list_ex_iff)
    with r have "i - 20 \<le> j \<and> j < i + 20 \<and> j < length lines" by arith
    with none j(3) show False by blast
  qed
  have b: "\<not> chainHasCatch lines (min (length lines) (i + 5)) i"
  proof
    assume "chainHasCatch lines (min (length lines) (i + 5)) i"
    from chainHasCatch_found [OF this] obtain j
      where j: "i \<le> j" "j < min (length lines) (i + 5)" "includesStr (lines ! j) ''.catch(''"
      by blast
    then have "i - 20 \<le> j \<and> j < i + 20 \<and> j < length lines" by arith
    moreover from j(3) have "hasGuardToken (lines ! j)" by (simp add: hasGuardToken_def)
    ultimately show False using none by blast
  qed
  from isFetch_scope [OF i Some [unfolded se]] a b show ?thesis by simp
qed

lemma meh_facts:
  "p_id pat_missing_error_handling = ''missing_error_handling''"
  "p_skipMocks pat_missing_error_handling = False"
  "p_skipTests pat_missing_error_handling = True"
  "p_severity pat_missing_error_handling = Medium"
  "p_ci pat_missing_error_handling = False"
  by (simp_all add: pat_missing_error_handling_def)

lemma meh_minlen: "0 < minlen (p_pattern pat_missing_error_handling)"
  by code_simp

lemma meh_not_family: "\<not> isAnyOrUnsafeRule pat_missing_error_handling"
  by code_simp

lemma meh_late: "\<not> isTestFile f \<Longrightarrow> \<not> whitelistedLate pat_missing_error_handling f q line"
  by (simp add: whitelistedLate_def Let_def meh_facts)

text \<open>
  What the rule \<^verbatim>\<open>missing_error_handling\<close> does for every file: a call is
  passed over when the scope the heuristic bounds holds one of the three
  tokens, and every match of the line is reported, with medium severity, when
  no line from 20 above to 19 below holds one.
\<close>

lemma call_in_guarded_scope_passed_over:
  assumes "i < length lines" and "functionScope lines i = Some (s, e)"
      and "s \<le> k" and "k \<le> e" and "hasGuardToken (lines ! k)"
  shows "scanPattern pat_missing_error_handling filePath quiet lines i = Inr []"
proof -
  let ?p = pat_missing_error_handling
  obtain found where found: "execAll (p_ci ?p) (p_pattern ?p) [] (lines ! i) = Some found"
    using execAll_total [OF meh_minlen] by blast
  have early: "\<not> whitelistedEarly ?p filePath lines i"
    using whitelistedEarly_family meh_not_family by blast
  from assms(3,4) have "k \<in> set [s ..< e + 1]" unfolding set_upt atLeastLessThan_iff by arith
  with assms(5) have "list_ex (\<lambda>j. hasGuardToken (lines ! j)) [s ..< e + 1]"
    unfolding list_ex_iff by blast
  with isFetch_scope [OF assms(1,2), of 0]
  have "isFetchCallProperlyHandled lines i 0 = Inr True" by simp
  then have "skipMatch ?p filePath quiet lines i 0 = Inr True"
    using early by (simp add: skipMatch_def skipAfterWhitelist_def meh_facts)
  from scanPattern_char [OF found this] show ?thesis by simp
qed

lemma unguarded_call_reported:
  assumes "i < length lines" and "\<not> isTestFile filePath"
      and "\<forall>k. i - 20 \<le> k \<and> k < i + 20 \<and> k < length lines \<longrightarrow> \<not> hasGuardToken (lines ! k)"
  shows "\<exists>found.
     execAll False (p_pattern pat_missing_error_handling) [] (lines ! i) = Some found
     \<and> scanPattern pat_missing_error_handling filePath quiet lines i
         = Inr (map (mkIssue pat_missing_error_handling filePath (i + 1)) found)
     \<and> (\<forall>x \<in> set (map (mkIssue pat_missing_error_handling filePath (i + 1)) found).
           i_type x = ''missing_error_handling'' \<and> i_severity x = Medium)"
proof -
  let ?p = pat_missing_error_handling
  obtain found where found: "execAll (p_ci ?p) (p_pattern ?p) [] (lines ! i) = Some found"
    using execAll_total [OF meh_minlen] by blast
  have early: "\<not> whitelistedEarly ?p filePath lines i"
    using whitelistedEarly_family meh_not_family by blast
  have cat: "\<not> categorySkipped ?p filePath"
    using assms(2) by (simp add: categorySkipped_def meh_facts)
  from isFetch_no_guard_nearby [OF assms(1,3), of 0]
  have "skipMatch ?p filePath quiet lines i 0 = Inr False"
    using early meh_late [OF assms(2)]
    by (simp add: skipMatch_def skipAfterWhitelist_def meh_facts)
  from scanPattern_char [OF found this] cat
  have a: "scanPattern ?p filePath quiet lines i = Inr (map (mkIssue ?p filePath (i + 1)) found)"
    by simp
  have shape: "\<forall>x \<in> set (map (mkIssue ?p filePath (i + 1)) found).
                 i_type x = ''missing_error_handling'' \<and> i_severity x = Medium"
    by (simp add: mkIssue_def meh_facts)
  from found a shape show ?thesis by (auto simp: meh_facts)
qed

text \<open>
  The scope the heuristic bounds need not be the function the call is in. The
  backward scan stops at the nearest line above that holds \<^verbatim>\<open>=>\<close>; when the
  braces of that line balance, the scope is that line alone, and the call lies
  outside it.
\<close>

lemma call_in_try_of_its_function_scope:
  "functionScope
     [''async function load(ids) {'',
      ''  try {'',
      ''    ids.forEach((id) => { seen[id] = true; });'',
      ''    const r = await fetch(url);'',
      ''    return r;'',
      ''  } catch (e) {'',
      ''    return null;'',
      ''  }'',
      ''}''] 3 = Some (2, 2)
   \<and> isFetchCallProperlyHandled
     [''async function load(ids) {'',
      ''  try {'',
      ''    ids.forEach((id) => { seen[id] = true; });'',
      ''    const r = await fetch(url);'',
      ''    return r;'',
      ''  } catch (e) {'',
      ''    return null;'',
      ''  }'',
      ''}''] 3 20 = Inr False"
  by code_simp

text \<open>
  C6.  A call \<^verbatim>\<open>fetch(url)\<close> in a file that is not a test file, inside the
  \<^verbatim>\<open>try {\<close> block of the function that contains it, two lines below the
  \<^verbatim>\<open>try {\<close>, and right below a line with an arrow function whose braces close
  on that line, is reported by the rule \<^verbatim>\<open>missing_error_handling\<close>.
\<close>

theorem call_in_try_of_its_function_reported:
  "scanPattern pat_missing_error_handling ''src/api.ts'' False
     [''async function load(ids) {'',
      ''  try {'',
      ''    ids.forEach((id) => { seen[id] = true; });'',
      ''    const r = await fetch(url);'',
      ''    return r;'',
      ''  } catch (e) {'',
      ''    return null;'',
      ''  }'',
      ''}''] 3
   = Inr [mkIssue pat_missing_error_handling ''src/api.ts'' 4 (20, ''fetch('')]"
  by code_simp

text \<open>
  With a plain statement in the place of the arrow line the scope is the whole
  function and the call is passed over.
\<close>

lemma call_in_try_without_arrow_line_passed_over:
  "functionScope
     [''async function load(ids) {'',
      ''  try {'',
      ''    seen[ids[0]] = true;'',
      ''    const r = await fetch(url);'',
      ''    return r;'',
      ''  } catch (e) {'',
      ''    return null;'',
      ''  }'',
      ''}''] 3 = Some (0, 8)
   \<and> scanPattern pat_missing_error_handling ''src/api.ts'' False
     [''async function load(ids) {'',
      ''  try {'',
      ''    seen[ids[0]] = true;'',
      ''    const r = await fetch(url);'',
      ''    return r;'',
      ''  } catch (e) {'',
      ''    return null;'',
      ''  }'',
      ''}''] 3 = Inr []"
  by code_simp

text \<open>A call with no error handling around it: one issue of medium severity.\<close>

lemma unguarded_call_one_issue:
  "scanPattern pat_missing_error_handling ''src/api.ts'' False
     [''async function f() {'', ''  const r = await fetch(u);'', ''}''] 1
     = Inr [mkIssue pat_missing_error_handling ''src/api.ts'' 2 (18, ''fetch('')]
   \<and> i_severity (mkIssue pat_missing_error_handling ''src/api.ts'' 2 (18, ''fetch('')) = Medium"
  by code_simp

text \<open>
  The expression of the rule wants the parenthesis right after the name
  (white space apart): a method call on \<^verbatim>\<open>axios\<close> is no match.
\<close>

lemma method_call_on_axios_not_matched:
  "execAll False (p_pattern pat_missing_error_handling) [] ''  const r = await axios.get(u);''
     = Some []
   \<and> execAll False (p_pattern pat_missing_error_handling) [] ''  const r = await axios(u);''
     = Some [(18, ''axios('')]"
  by code_simp

section \<open>Configuration\<close>











section \<open>Try/catch enclosure heuristic\<close>

lemma tryCatchStep_catch_line:
  assumes "includesStr (lines ! i) ''catch (''" and "includesStr (lines ! i) ''{''"
  shows "fst (tryCatchStep lines i d c)"
  using assms by (simp add: tryCatchStep_def Let_def)

lemma tryCatchScan_catch_above:
  assumes "k \<le> i" and "includesStr (lines ! k) ''catch (''" and "includesStr (lines ! k) ''{''"
  shows "tryCatchScan lines i d c"
  using assms
proof (induction lines i d c rule: tryCatchScan.induct)
  case (1 lines i d c)
  obtain r d' c' where st: "tryCatchStep lines i d c = (r, d', c')"
    by (cases "tryCatchStep lines i d c") auto
  show ?case
  proof (cases r)
    case True
    with st show ?thesis by (simp add: tryCatchScan.simps [of lines i d c])
  next
    case False
    have "k \<noteq> i"
    proof
      assume "k = i"
      with "1.prems" tryCatchStep_catch_line [of lines i d c] st False show False by simp
    qed
    with "1.prems"(1) have lt: "0 < i" and le: "k \<le> i - 1" by arith+
    from "1.IH" [OF st [symmetric] _ refl lt le "1.prems"(2,3)] False
    have "tryCatchScan lines (i - 1) d' c'" by simp
    with st False lt show ?thesis by (simp add: tryCatchScan.simps [of lines i d c])
  qed
qed

lemma catch_line_above_suffices:
  assumes "k \<le> i" and "i < length lines"
      and "includesStr (lines ! k) ''catch (''" and "includesStr (lines ! k) ''{''"
  shows "isInTryCatchBlock lines i = Inr True"
  using assms tryCatchScan_catch_above [of k i lines 0 None]
  by (simp add: isInTryCatchBlock_def)

text \<open>
  C5.  A target line that follows a try/catch statement which is already
  closed, inside a function with no other error handling, is reported as
  being within a try/catch block: the catch line above it is enough, whatever
  the braces in between.
\<close>

theorem closed_try_catch_above_counts_as_enclosing:
  "isInTryCatchBlock
     [''function outer() {'',
      ''  try { a(); } catch (e) { b(); }'',
      ''  if (x) {'',
      ''    console.error(x);'',
      ''  }'',
      ''}''] 3 = Inr True"
  by code_simp

text \<open>
  The effect on the rule \<^verbatim>\<open>production_console_log\<close>: the call is passed over
  with the closed try/catch above it, and reported without.
\<close>

lemma closed_try_catch_above_hides_console_error:
  "scanPattern pat_production_console_log ''src/app.ts'' False
     [''function outer() {'',
      ''  try { a(); } catch (e) { b(); }'',
      ''  if (x) {'',
      ''    console.error(x);'',
      ''  }'',
      ''}''] 3 = Inr []
   \<and> scanPattern pat_production_console_log ''src/app.ts'' False
     [''function outer() {'',
      ''  a();'',
      ''  if (x) {'',
      ''    console.error(x);'',
      ''  }'',
      ''}''] 3 = Inr [mkIssue pat_production_console_log ''src/app.ts'' 4 (4, ''console.error('')]"
  by code_simp

section \<open>Imports of framework names from the wrong package\<close>

lemma scanPatterns_append:
  "scanPatterns (ps @ qs) f q lines i =
     (case scanPatterns ps f q lines i of
        Inl e \<Rightarrow> Inl e
      | Inr a \<Rightarrow>
          (case scanPatterns qs f q lines i of
             Inl e \<Rightarrow> Inl e
           | Inr b \<Rightarrow> Inr (a @ b)))"
  by (induction ps) (auto split: sum.splits)

lemma import_line_group1:
  "scanPatterns
     [pat_redundant_self_explanatory_comment,
      pat_excessive_boilerplate_comment,
      pat_debug_log_with_comment,
      pat_hallucinated_react_import,
      pat_hallucinated_next_import,
      pat_todo_implementation_placeholder,
      pat_assumption_comment]
     ''src/app.ts'' False [''import { useRouter, Link } from 'react';''] 0 = Inr []"
  by code_simp

lemma import_line_group2:
  "scanPatterns
     [pat_overconfident_comment,
      pat_hedging_uncertainty_comment,
      pat_unnecessary_iife_wrapper,
      pat_vibe_coded_ternary_abuse,
      pat_magic_css_value,
      pat_useEffect_derived_state,
      pat_useEffect_empty_deps_suspicious]
     ''src/app.ts'' False [''import { useRouter, Link } from 'react';''] 0 = Inr []"
  by code_simp

lemma import_line_group3:
  "scanPatterns
     [pat_setState_in_loop,
      pat_useCallback_no_deps,
      pat_any_type_usage,
      pat_array_any_type,
      pat_generic_any_type,
      pat_function_param_any_type,
      pat_unsafe_type_assertion]
     ''src/app.ts'' False [''import { useRouter, Link } from 'react';''] 0 = Inr []"
  by code_simp

lemma import_line_group4:
  "scanPatterns
     [pat_unsafe_double_type_assertion,
      pat_index_signature_any,
      pat_missing_error_handling,
      pat_production_console_log,
      pat_todo_comment,
      pat_unsafe_member_access]
     ''src/app.ts'' False [''import { useRouter, Link } from 'react';''] 0 = Inr []"
  by code_simp

lemma import_line_split:
  "split_lines ''import { useRouter, Link } from 'react';'' = [''import { useRouter, Link } from 'react';'']"
  by code_simp

lemma import_line_nested:
  "analyzeComplexNestedConditionals ''src/app.ts'' [''import { useRouter, Link } from 'react';''] 0 (Suc 0)
     ''import { useRouter, Link } from 'react';'' = []"
  by code_simp

lemma detectionPatterns_groups:
  "detectionPatterns =
     [pat_redundant_self_explanatory_comment, pat_excessive_boilerplate_comment, pat_debug_log_with_comment, pat_hallucinated_react_import, pat_hallucinated_next_import, pat_todo_implementation_placeholder, pat_assumption_comment]
     @ [pat_overconfident_comment, pat_hedging_uncertainty_comment, pat_unnecessary_iife_wrapper, pat_vibe_coded_ternary_abuse, pat_magic_css_value, pat_useEffect_derived_state, pat_useEffect_empty_deps_suspicious]
     @ [pat_setState_in_loop, pat_useCallback_no_deps, pat_any_type_usage, pat_array_any_type, pat_generic_any_type, pat_function_param_any_type, pat_unsafe_type_assertion]
     @ [pat_unsafe_double_type_assertion, pat_index_signature_any, pat_missing_error_handling, pat_production_console_log, pat_todo_comment, pat_unsafe_member_access]"
  by (simp add: detectionPatterns_def)

lemma import_line_registry:
  "scanPatterns detectionPatterns ''src/app.ts'' False [''import { useRouter, Link } from 'react';''] 0 = Inr []"
  unfolding detectionPatterns_groups
  by (simp only: scanPatterns_append import_line_group1 import_line_group2 import_line_group3
      import_line_group4 sum.case append_Nil)

text \<open>
  C2.  The scan of a file \<^verbatim>\<open>src/app.ts\<close> whose only line is
  \<^verbatim>\<open>import { useRouter, Link } from 'react';\<close>, quiet mode off, with the built-in
  registry, reports no issue at all.
\<close>

theorem two_name_import_not_detected:
  "analyzeFile detectionPatterns ''src/app.ts'' False ''import { useRouter, Link } from 'react';'' = Inr []"
  by (simp add: analyzeFile_def import_line_split analyzeLine_def import_line_registry
      import_line_nested)

text \<open>The same import with the one name \<^verbatim>\<open>useRouter\<close> is reported.\<close>

lemma single_name_import_detected:
  "scanPattern pat_hallucinated_react_import ''src/app.ts'' False
     [''import { useRouter } from 'react';''] 0
   = Inr [mkIssue pat_hallucinated_react_import ''src/app.ts'' 1
            (0, ''import { useRouter } from '' @ [CHR 0x27] @ ''react'' @ [CHR 0x27])]"
  by code_simp


end
